theory Spec2Isabelle
  imports Main "HOL-Library.Word" "HOL-Library.AList"
begin

unbundle bit_operations_syntax

section \<open>The Video model of server/models/video.js\<close>

text \<open>
  A shallow embedding of the instance methods, hooks and the search query builder of
  \<^verbatim>\<open>server/models/video.js\<close>. JavaScript objects of a fixed shape are records, a
  nullable column is an \<open>option\<close>, a thrown or passed error is the \<open>Inl\<close> of a sum,
  and every call of a collaborator that is not part of this file (the file system,
  the torrent and magnet libraries, ffmpeg, the friends module, the storage layer)
  reads its outcome from a record of oracles, so that every theorem holds for every
  behaviour of these collaborators.
\<close>

subsection \<open>Data model\<close>

type_synonym bytes = "8 word list"

datatype error = Error string | TypeError string

text \<open>How a call ends for its caller: it throws an exception, or it returns (what it
  hands over, at once or later through a callback, is the value).\<close>

datatype 'a outcome = Threw error | Returned 'a

record tag =
  name :: string

record pod =
  host :: string

record author =
  name :: string
  Pod :: "pod option"

text \<open>
  A Video instance with its Author (and the author's Pod, when there is one) and its
  Tags populated. \<open>remoteId\<close> is the nullable UUID column: \<open>None\<close> is \<open>null\<close>.
  The field \<open>id\<close> is written \<open>id'\<close>. Timestamps are milliseconds.
\<close>

record video =
  id' :: string
  name :: string
  extname :: string
  remoteId :: "string option"
  description :: string
  infoHash :: string
  duration :: int
  createdAt :: int
  updatedAt :: int
  Author :: author
  Tags :: "tag list"

text \<open>
  The values of \<^verbatim>\<open>../initializers/constants\<close> that this file reads; the module is
  not part of the sources, so they are a parameter. \<open>CONFIG_WEBSERVER_PORT\<close> is the
  port as string concatenation renders it.
\<close>

record constants =
  CONFIG_WEBSERVER_URL :: string
  CONFIG_WEBSERVER_WS :: string
  CONFIG_WEBSERVER_HOSTNAME :: string
  CONFIG_WEBSERVER_PORT :: string
  CONFIG_WEBSERVER_HOST :: string
  CONFIG_STORAGE_VIDEOS_DIR :: string
  CONFIG_STORAGE_TORRENTS_DIR :: string
  CONFIG_STORAGE_THUMBNAILS_DIR :: string
  CONFIG_STORAGE_PREVIEWS_DIR :: string
  STATIC_PATHS_TORRENTS :: string
  STATIC_PATHS_WEBSEED :: string
  STATIC_PATHS_THUMBNAILS :: string
  REMOTE_SCHEME_HTTP :: string
  REMOTE_SCHEME_WS :: string
  THUMBNAILS_SIZE :: string

subsection \<open>Ownership and file names\<close>

definition isOwned :: "video \<Rightarrow> bool" where
  "isOwned v = (video.remoteId v = None)"

text \<open>
  \<open>this.remoteId + this.extname\<close> is only reached when \<open>remoteId\<close> is not null; JavaScript
  would render a null as the text \<open>null\<close>, which \<open>remoteIdText\<close> keeps.
\<close>

definition remoteIdText :: "video \<Rightarrow> string" where
  "remoteIdText v = (case video.remoteId v of None \<Rightarrow> ''null'' | Some r \<Rightarrow> r)"

definition getVideoFilename :: "video \<Rightarrow> string" where
  "getVideoFilename v =
     (if isOwned v then id' v @ extname v else remoteIdText v @ extname v)"

definition getThumbnailName :: "video \<Rightarrow> string" where
  "getThumbnailName v = id' v @ ''.jpg''"

definition getPreviewName :: "video \<Rightarrow> string" where
  "getPreviewName v =
     (let extension = ''.jpg''
      in if isOwned v then id' v @ extension else remoteIdText v @ extension)"

definition getTorrentName :: "video \<Rightarrow> string" where
  "getTorrentName v =
     (let extension = ''.torrent''
      in if isOwned v then id' v @ extension else remoteIdText v @ extension)"

subsection \<open>Collaborators and effects\<close>

record torrent_options =
  announceList :: "string list list"
  urlList :: "string list"

text \<open>The options object of \<open>generateImage\<close>; \<open>size'\<close> is absent when no size is passed.\<close>

record image_options =
  filename :: string
  count :: nat
  folder :: string
  size' :: "string option"

record remove_params =
  name :: string
  remoteId :: string

record magnet_hash =
  xs :: string
  announce :: string
  urlList :: "string list"
  infoHash :: string
  name :: string

text \<open>What \<open>magnetUtil.decode\<close> yields; \<open>infoHash\<close> is undefined when the URI has none.\<close>

record magnet_decoded =
  infoHash :: "string option"
  name :: "string option"
  announce :: "string list"
  urlList :: "string list"

text \<open>
  The query object handed to \<open>findAndCountAll\<close>. A where object is its list of
  key/value pairs; a condition is a plain value (equality), \<open>{$like: pattern}\<close> or
  \<open>{$in: sequelize.literal(sql)}\<close>. An include object has a model, and may have a where
  object, a \<open>required\<close> flag and nested includes.
\<close>

datatype model = AuthorModel | PodModel | TagModel

datatype condition = Equals "string option" | Like string | InLiteral string

type_synonym where_object = "(string \<times> condition) list"

datatype include_object =
  Include (model: model) (where': "where_object option") (required: "bool option")
    (include': "include_object list")

datatype order_item = OrderBy "string list" | OrderByModel model string string

record query =
  where' :: where_object
  offset :: nat
  limit :: nat
  distinct' :: bool
  order :: "order_item list"
  include' :: "include_object list"

record find_result =
  rows :: "video list"
  count :: nat

text \<open>
  The outcome of every call that leaves this file. An asynchronous call that passes
  an error to its callback yields \<open>Some e\<close> or \<open>Inl e\<close>.
  \<^item> \<open>createTorrent path options\<close>: the torrent buffer of \<^verbatim>\<open>create-torrent\<close>.
  \<^item> \<open>parseTorrentDigest torrent\<close>: the 160-bit digest that \<^verbatim>\<open>parse-torrent\<close>
    renders as the \<open>infoHash\<close> of the parsed torrent (see \<open>parseTorrent\<close> below).
  \<^item> \<open>validate video\<close>: the promise of \<open>video.validate()\<close>, \<open>Inl e\<close> when it is
    rejected with \<open>e\<close> and \<open>Inr r\<close> when it is fulfilled with \<open>r\<close> (\<open>None\<close> is null, \<open>Some e\<close>
    a validation error passed as the value). It runs no hook and leaves the record as it is.
  \<^item> \<open>thumbnail path options\<close>: the \<open>error\<close> event of the ffmpeg command, \<open>None\<close> when
    it ends.
  \<^item> \<open>removeVideoToFriends params\<close>: the call of the friends module, which is not part
    of the sources: \<open>Threw e\<close> when the call itself throws \<open>e\<close>, \<open>Returned r\<close> when it
    returns, where \<open>r\<close> is how the broadcast ends afterwards (\<open>Some e\<close> when it fails).
    The function hands nothing of \<open>r\<close> to its caller.
  \<^item> \<open>insertRow video\<close>: the INSERT of the storage layer at the end of a creation.
  \<^item> \<open>getSort sort\<close>: the order item of \<^verbatim>\<open>./utils\<close> (not part of the sources);
    \<open>escape\<close> is \<open>sequelize.escape\<close>.
  \<^item> \<open>sqlLike pattern text\<close>, \<open>literalIds sql\<close>, \<open>queryError query\<close> and \<open>table order\<close>: the
    storage layer: whether a text matches a LIKE pattern, the ids a literal subquery
    selects, the error with which it rejects a query, and the videos it holds
    (with author, pod and tags joined) listed in the order asked for.
\<close>

record env =
  pathJoin :: "string \<Rightarrow> string \<Rightarrow> string"
  createTorrent :: "string \<Rightarrow> torrent_options \<Rightarrow> error + bytes"
  writeFile :: "string \<Rightarrow> bytes \<Rightarrow> error option"
  readFile :: "string \<Rightarrow> error + bytes"
  unlink :: "string \<Rightarrow> error option"
  parseTorrentDigest :: "bytes \<Rightarrow> 160 word"
  validate :: "video \<Rightarrow> error + error option"
  thumbnail :: "string \<Rightarrow> image_options \<Rightarrow> error option"
  removeVideoToFriends :: "remove_params \<Rightarrow> error option outcome"
  magnetEncode :: "magnet_hash \<Rightarrow> string"
  magnetDecode :: "string \<Rightarrow> magnet_decoded"
  insertRow :: "video \<Rightarrow> error option"
  getSort :: "string \<Rightarrow> string list"
  escape :: "string \<Rightarrow> string"
  sqlLike :: "string \<Rightarrow> string \<Rightarrow> bool"
  literalIds :: "string \<Rightarrow> string list"
  queryError :: "query \<Rightarrow> error option"
  table :: "order_item list \<Rightarrow> video list"

text \<open>The calls a function made, in the order it issued them (grouped by task for
  tasks that run in parallel).\<close>

datatype effect =
    CreateTorrent string torrent_options
  | WriteFile string bytes
  | ReadFile string
  | Unlink string
  | Thumbnail string image_options
  | RemoveVideoToFriends remove_params "error option outcome"
  | LoggerError string

text \<open>What a task passes to its callback as the result.\<close>

datatype task_value = Undefined | ImageName string | Validation "error option"

text \<open>A task started by \<open>parallel\<close>: it may change the video it closes over and leaves
  effects; it returns and calls its callback once with an error or a result, or it
  throws before it has called the callback.\<close>

type_synonym task = "video \<Rightarrow> (error + task_value) outcome \<times> video \<times> effect list"

subsection \<open>The info-hash of a parsed torrent\<close>

definition hexDigit :: "nat \<Rightarrow> char" where
  "hexDigit n = ''0123456789abcdef'' ! (n mod 16)"

definition hex160 :: "160 word \<Rightarrow> string" where
  "hex160 w = map (\<lambda>i. hexDigit (unat (drop_bit (4 * (39 - i)) w AND 15))) [0..<40]"

text \<open>
  \<open>parseTorrent(torrent).infoHash\<close>: the library is not part of the sources; the info-hash
  it computes is the SHA-1 digest of the torrent's info dictionary, written as 40
  lower-case hexadecimal digits. Which digest a torrent has is left to the oracle.
\<close>

definition parseTorrent :: "env \<Rightarrow> bytes \<Rightarrow> string" where
  "parseTorrent env torrent = hex160 (parseTorrentDigest env torrent)"


subsection \<open>parallel\<close>

text \<open>
  \<open>parallel(tasks, callback)\<close> of the async library starts every task in array order
  and calls \<open>callback\<close> once: with the error of the first task that fails, or with the
  results when all have succeeded. Which failing task is first depends on the order
  in which the tasks complete: \<open>completion\<close> lists task indices in completion order, and
  tasks it does not list complete after those, in array order. Every task runs, also
  after another has passed an error. \<open>runTasks\<close> hands the video from one task to the
  next in array order: the tasks of this file read only the \<open>id\<close>, \<open>name\<close>, \<open>remoteId\<close>
  and \<open>extname\<close> of the video, and the only field a task sets is \<open>infoHash\<close>.

  Nothing catches an exception: when a task throws while it is started, the tasks
  after it in the array are not started, and the exception leaves \<open>parallel\<close> and the
  hook that called it.
\<close>

definition firstError :: "nat list \<Rightarrow> (error + 'a) list \<Rightarrow> error option" where
  "firstError completion rs =
     (case filter (\<lambda>i. isl (rs ! i)) (filter (\<lambda>i. i < length rs) completion @ [0..<length rs]) of
        [] \<Rightarrow> None
      | i # _ \<Rightarrow> Some (projl (rs ! i)))"

fun runTasks ::
  "task list \<Rightarrow> video \<Rightarrow> (error + task_value) list outcome \<times> video \<times> effect list" where
  "runTasks [] v = (Returned [], v, [])"
| "runTasks (t # ts) v =
     (case t v of
        (Threw e, v1, fx) \<Rightarrow> (Threw e, v1, fx)
      | (Returned r, v1, fx) \<Rightarrow>
          (case runTasks ts v1 of
             (Threw e, v2, fxs) \<Rightarrow> (Threw e, v2, fx @ fxs)
           | (Returned rs, v2, fxs) \<Rightarrow> (Returned (r # rs), v2, fx @ fxs)))"

definition parallel ::
  "nat list \<Rightarrow> task list \<Rightarrow> video \<Rightarrow> (error + task_value list) outcome \<times> video \<times> effect list" where
  "parallel completion tasks v =
     (case runTasks tasks v of
        (Threw e, v', fx) \<Rightarrow> (Threw e, v', fx)
      | (Returned rs, v', fx) \<Rightarrow>
          (case firstError completion rs of
             Some e \<Rightarrow> (Returned (Inl e), v', fx)
           | None \<Rightarrow> (Returned (Inr (map projr rs)), v', fx)))"

text \<open>What a hook does for the storage layer that runs it: it throws, or it calls
  \<open>next\<close>. The hook callback \<open>next\<close> keeps the error of \<open>parallel\<close> and drops the results.\<close>

definition nextOf ::
  "(error + task_value list) outcome \<times> video \<times> effect list
     \<Rightarrow> error option outcome \<times> video \<times> effect list" where
  "nextOf r =
     (case r of
        (Threw e, v, fx) \<Rightarrow> (Threw e, v, fx)
      | (Returned (Inl e), v, fx) \<Rightarrow> (Returned (Some e), v, fx)
      | (Returned (Inr _), v, fx) \<Rightarrow> (Returned None, v, fx))"

text \<open>A task that only reads the video and does not throw.\<close>

definition reading :: "(video \<Rightarrow> (error + task_value) \<times> effect list) \<Rightarrow> task" where
  "reading f = (\<lambda>v. case f v of (r, fx) \<Rightarrow> (Returned r, v, fx))"

subsection \<open>Hooks: beforeValidate and beforeCreate\<close>

definition beforeValidate :: "video \<Rightarrow> error option \<times> video" where
  "beforeValidate v =
     (if isOwned v then (None, v\<lparr>video.infoHash := ''0123456789abcdef0123456789abcdef01234567''\<rparr>)
      else (None, v))"

text \<open>\<open>generateImage\<close>: \<open>size\<close> is \<open>None\<close> for the call with five arguments, where the
  callback takes the place of the size and \<open>options.size\<close> stays unset (\<open>sz\<close> is \<open>size\<close>).\<close>

definition generateImage ::
  "env \<Rightarrow> string \<Rightarrow> string \<Rightarrow> string \<Rightarrow> string option \<Rightarrow> (error + task_value) \<times> effect list" where
  "generateImage env videoPath fld imageName sz =
     (let options = \<lparr>filename = imageName, image_options.count = 1, folder = fld, size' = sz\<rparr>
      in (case thumbnail env videoPath options of
            Some e \<Rightarrow> Inl e
          | None \<Rightarrow> Inr (ImageName imageName),
          [Thumbnail videoPath options]))"

definition createPreview ::
  "constants \<Rightarrow> env \<Rightarrow> video \<Rightarrow> string \<Rightarrow> (error + task_value) \<times> effect list" where
  "createPreview cfg env v videoPath =
     generateImage env videoPath (CONFIG_STORAGE_PREVIEWS_DIR cfg) (getPreviewName v) None"

definition createThumbnail ::
  "constants \<Rightarrow> env \<Rightarrow> video \<Rightarrow> string \<Rightarrow> (error + task_value) \<times> effect list" where
  "createThumbnail cfg env v videoPath =
     generateImage env videoPath (CONFIG_STORAGE_THUMBNAILS_DIR cfg) (getThumbnailName v)
       (Some (THUMBNAILS_SIZE cfg))"

text \<open>The first task of \<open>beforeCreate\<close> (lines 160 to 181): encode the torrent, write
  it, set the info-hash of the parsed torrent on the video, validate.
  \<open>torrentOptions\<close> is its \<open>options\<close> object.\<close>

definition torrentOptions :: "constants \<Rightarrow> video \<Rightarrow> torrent_options" where
  "torrentOptions cfg v =
     \<lparr>announceList =
        [[CONFIG_WEBSERVER_WS cfg @ ''://'' @ CONFIG_WEBSERVER_HOSTNAME cfg @ '':''
            @ CONFIG_WEBSERVER_PORT cfg @ ''/tracker/socket'']],
      torrent_options.urlList =
        [CONFIG_WEBSERVER_URL cfg @ STATIC_PATHS_WEBSEED cfg @ getVideoFilename v]\<rparr>"

definition torrentTask :: "constants \<Rightarrow> env \<Rightarrow> string \<Rightarrow> task" where
  "torrentTask cfg env videoPath v =
     (let options = torrentOptions cfg v
      in case createTorrent env videoPath options of
           Inl err \<Rightarrow> (Returned (Inl err), v, [CreateTorrent videoPath options])
         | Inr torrent \<Rightarrow>
             (let torrentPath = CONFIG_STORAGE_TORRENTS_DIR cfg @ getTorrentName v
              in case writeFile env torrentPath torrent of
                   Some err \<Rightarrow>
                     (Returned (Inl err), v,
                      [CreateTorrent videoPath options, WriteFile torrentPath torrent])
                 | None \<Rightarrow>
                     (let v' = v\<lparr>video.infoHash := parseTorrent env torrent\<rparr>
                      in (case validate env v' of
                            Inl err \<Rightarrow> Returned (Inl err)
                          | Inr r \<Rightarrow> Returned (Inr (Validation r)),
                          v',
                          [CreateTorrent videoPath options, WriteFile torrentPath torrent]))))"

definition beforeCreateTasks :: "constants \<Rightarrow> env \<Rightarrow> video \<Rightarrow> task list" where
  "beforeCreateTasks cfg env v =
     (if isOwned v then
        (let videoPath = pathJoin env (CONFIG_STORAGE_VIDEOS_DIR cfg) (getVideoFilename v)
         in [torrentTask cfg env videoPath,
             reading (\<lambda>video. createThumbnail cfg env video videoPath),
             reading (\<lambda>video. createPreview cfg env video videoPath)])
      else [])"

definition beforeCreate ::
  "constants \<Rightarrow> env \<Rightarrow> nat list \<Rightarrow> video \<Rightarrow> error option outcome \<times> video \<times> effect list" where
  "beforeCreate cfg env completion v =
     (if isOwned v then nextOf (parallel completion (beforeCreateTasks cfg env v) v)
      else (Returned None, v, []))"

text \<open>
  The creation of a new record by the storage layer runs, in this order: the
  \<open>beforeValidate\<close> hook, the validation (a validation error ends the creation), the
  \<open>beforeCreate\<close> hook (an error passed to \<open>next\<close>, or thrown, ends the creation), the
  INSERT.
\<close>

definition create ::
  "constants \<Rightarrow> env \<Rightarrow> nat list \<Rightarrow> video \<Rightarrow> (error + video) \<times> effect list" where
  "create cfg env completion v =
     (case beforeValidate v of
        (Some e, _) \<Rightarrow> (Inl e, [])
      | (None, v1) \<Rightarrow>
          (case validate env v1 of
             Inl e \<Rightarrow> (Inl e, [])
           | Inr (Some e) \<Rightarrow> (Inl e, [])
           | Inr None \<Rightarrow>
               (case beforeCreate cfg env completion v1 of
                  (Threw e, _, fx) \<Rightarrow> (Inl e, fx)
                | (Returned (Some e), _, fx) \<Rightarrow> (Inl e, fx)
                | (Returned None, v2, fx) \<Rightarrow>
                    (case insertRow env v2 of
                       Some e \<Rightarrow> (Inl e, fx)
                     | None \<Rightarrow> (Inr v2, fx)))))"

subsection \<open>Hook: afterDestroy\<close>

text \<open>\<open>fs.unlink(path, callback)\<close>.\<close>

definition unlinkFile :: "env \<Rightarrow> string \<Rightarrow> (error + task_value) \<times> effect list" where
  "unlinkFile env path =
     (case unlink env path of Some err \<Rightarrow> Inl err | None \<Rightarrow> Inr Undefined, [Unlink path])"

definition removeThumbnail :: "constants \<Rightarrow> env \<Rightarrow> video \<Rightarrow> (error + task_value) \<times> effect list" where
  "removeThumbnail cfg env v =
     unlinkFile env (CONFIG_STORAGE_THUMBNAILS_DIR cfg @ getThumbnailName v)"

definition removeFile :: "constants \<Rightarrow> env \<Rightarrow> video \<Rightarrow> (error + task_value) \<times> effect list" where
  "removeFile cfg env v = unlinkFile env (CONFIG_STORAGE_VIDEOS_DIR cfg @ getVideoFilename v)"

definition removeTorrent :: "constants \<Rightarrow> env \<Rightarrow> video \<Rightarrow> (error + task_value) \<times> effect list" where
  "removeTorrent cfg env v = unlinkFile env (CONFIG_STORAGE_TORRENTS_DIR cfg @ getTorrentName v)"

definition removePreview :: "constants \<Rightarrow> env \<Rightarrow> video \<Rightarrow> (error + task_value) \<times> effect list" where
  "removePreview cfg env v = unlinkFile env (CONFIG_STORAGE_PREVIEWS_DIR cfg @ getPreviewName v)"

text \<open>The last task of \<open>afterDestroy\<close> (lines 219 to 228): it calls
  \<open>friends.removeVideoToFriends(params)\<close> and, when the call has returned, calls
  \<open>callback()\<close> without using anything of the call. The call is not inside a
  \<open>try\<close>: when it throws, \<open>callback()\<close> is not reached and the exception leaves the task.\<close>

definition removeVideoToFriendsTask :: "env \<Rightarrow> task" where
  "removeVideoToFriendsTask env v =
     (let params = \<lparr>remove_params.name = video.name v, remove_params.remoteId = video.id' v\<rparr>
      in case removeVideoToFriends env params of
           Threw e \<Rightarrow> (Threw e, v, [RemoveVideoToFriends params (Threw e)])
         | Returned r \<Rightarrow> (Returned (Inr Undefined), v, [RemoveVideoToFriends params (Returned r)]))"

definition afterDestroyTasks :: "constants \<Rightarrow> env \<Rightarrow> video \<Rightarrow> task list" where
  "afterDestroyTasks cfg env v =
     [reading (removeThumbnail cfg env)] @
     (if isOwned v then
        [reading (removeFile cfg env),
         reading (removeTorrent cfg env),
         reading (removePreview cfg env),
         removeVideoToFriendsTask env]
      else [])"

definition afterDestroy ::
  "constants \<Rightarrow> env \<Rightarrow> nat list \<Rightarrow> video \<Rightarrow> error option outcome \<times> video \<times> effect list" where
  "afterDestroy cfg env completion v = nextOf (parallel completion (afterDestroyTasks cfg env v) v)"

subsection \<open>Instance methods\<close>

text \<open>Reading \<open>this.Author.Pod.host\<close> when the author has no pod throws a TypeError.\<close>

definition generateMagnetUri :: "constants \<Rightarrow> env \<Rightarrow> video \<Rightarrow> error + string" where
  "generateMagnetUri cfg env v =
     (case (if isOwned v then
              Inr (CONFIG_WEBSERVER_URL cfg,
                   CONFIG_WEBSERVER_WS cfg @ ''://'' @ CONFIG_WEBSERVER_HOSTNAME cfg @ '':''
                     @ CONFIG_WEBSERVER_PORT cfg)
            else
              (case Pod (Author v) of
                 None \<Rightarrow> Inl (TypeError ''Cannot read property host of null'')
               | Some p \<Rightarrow>
                   Inr (REMOTE_SCHEME_HTTP cfg @ ''://'' @ host p,
                        REMOTE_SCHEME_WS cfg @ ''://'' @ host p))) of
        Inl e \<Rightarrow> Inl e
      | Inr (baseUrlHttp, baseUrlWs) \<Rightarrow>
          (let xs0 = baseUrlHttp @ STATIC_PATHS_TORRENTS cfg @ getTorrentName v;
               announce0 = baseUrlWs @ ''/tracker/socket'';
               urlList0 = [baseUrlHttp @ STATIC_PATHS_WEBSEED cfg @ getVideoFilename v];
               magnetHash = \<lparr>xs = xs0, magnet_hash.announce = announce0,
                              magnet_hash.urlList = urlList0,
                              magnet_hash.infoHash = video.infoHash v,
                              magnet_hash.name = video.name v\<rparr>
           in Inr (magnetEncode env magnetHash)))"

record formated_json =
  id' :: string
  name :: string
  description :: string
  podHost :: string
  isLocal :: bool
  magnetUri :: string
  author :: string
  duration :: int
  tags :: "string list"
  thumbnailPath :: string
  createdAt :: int
  updatedAt :: int

definition toFormatedJSON :: "constants \<Rightarrow> env \<Rightarrow> video \<Rightarrow> error + formated_json" where
  "toFormatedJSON cfg env v =
     (let podHost0 = (case Pod (Author v) of
                        Some p \<Rightarrow> host p
                      | None \<Rightarrow> CONFIG_WEBSERVER_HOST cfg)
      in case generateMagnetUri cfg env v of
           Inl e \<Rightarrow> Inl e
         | Inr uri \<Rightarrow>
             Inr \<lparr>formated_json.id' = video.id' v,
                  formated_json.name = video.name v,
                  formated_json.description = video.description v,
                  podHost = podHost0,
                  isLocal = isOwned v,
                  magnetUri = uri,
                  formated_json.author = author.name (Author v),
                  formated_json.duration = video.duration v,
                  formated_json.tags = map tag.name (Tags v),
                  thumbnailPath = STATIC_PATHS_THUMBNAILS cfg @ ''/'' @ getThumbnailName v,
                  formated_json.createdAt = video.createdAt v,
                  formated_json.updatedAt = video.updatedAt v\<rparr>)"

text \<open>The object of \<open>toUpdateRemoteJSON\<close>; the one of \<open>toAddRemoteJSON\<close> has the same
  keys and \<open>thumbnailData\<close>.\<close>

record remote_video =
  name :: string
  description :: string
  infoHash :: string
  remoteId :: string
  author :: string
  duration :: int
  tags :: "string list"
  createdAt :: int
  updatedAt :: int
  extname :: string

record remote_video_add = remote_video +
  thumbnailData :: string

text \<open>\<open>buffer.toString('binary')\<close> makes one character of each byte, and
  \<open>Buffer.from(string, 'binary')\<close> one byte of each character.\<close>

definition toBinaryString :: "bytes \<Rightarrow> string" where
  "toBinaryString buffer = map (\<lambda>b. char_of (unat b)) buffer"

definition bufferFromBinary :: "string \<Rightarrow> bytes" where
  "bufferFromBinary s = map of_char s"

definition toAddRemoteJSON ::
  "constants \<Rightarrow> env \<Rightarrow> video \<Rightarrow> (error + remote_video_add) \<times> effect list" where
  "toAddRemoteJSON cfg env v =
     (let thumbnailPath0 = pathJoin env (CONFIG_STORAGE_THUMBNAILS_DIR cfg) (getThumbnailName v)
      in case readFile env thumbnailPath0 of
           Inl err \<Rightarrow>
             (Inl err,
              [ReadFile thumbnailPath0, LoggerError ''Cannot read the thumbnail of the video''])
         | Inr thumbnailData0 \<Rightarrow>
             (Inr \<lparr>remote_video.name = video.name v,
                   remote_video.description = video.description v,
                   remote_video.infoHash = video.infoHash v,
                   remote_video.remoteId = video.id' v,
                   remote_video.author = author.name (Author v),
                   remote_video.duration = video.duration v,
                   remote_video.tags = map tag.name (Tags v),
                   remote_video.createdAt = video.createdAt v,
                   remote_video.updatedAt = video.updatedAt v,
                   remote_video.extname = video.extname v,
                   thumbnailData = toBinaryString thumbnailData0\<rparr>,
              [ReadFile thumbnailPath0]))"

definition toUpdateRemoteJSON :: "video \<Rightarrow> remote_video" where
  "toUpdateRemoteJSON v =
     \<lparr>remote_video.name = video.name v,
      remote_video.description = video.description v,
      remote_video.infoHash = video.infoHash v,
      remote_video.remoteId = video.id' v,
      remote_video.author = author.name (Author v),
      remote_video.duration = video.duration v,
      remote_video.tags = map tag.name (Tags v),
      remote_video.createdAt = video.createdAt v,
      remote_video.updatedAt = video.updatedAt v,
      remote_video.extname = video.extname v\<rparr>"

subsection \<open>Class methods\<close>

definition generateThumbnailFromData ::
  "constants \<Rightarrow> env \<Rightarrow> video \<Rightarrow> string \<Rightarrow> (error + string) \<times> effect list" where
  "generateThumbnailFromData cfg env v thumbnailData0 =
     (let thumbnailName = getThumbnailName v;
          thumbnailPath0 = CONFIG_STORAGE_THUMBNAILS_DIR cfg @ thumbnailName
      in (case writeFile env thumbnailPath0 (bufferFromBinary thumbnailData0) of
            Some err \<Rightarrow> Inl err
          | None \<Rightarrow> Inr thumbnailName,
          [WriteFile thumbnailPath0 (bufferFromBinary thumbnailData0)]))"

text \<open>The query object that \<open>searchAndPopulateAuthorAndPodAndTags\<close> builds (lines 514
  to 575). \<open>authorInclude\<close> holds \<open>podInclude\<close> by reference and \<open>query.include\<close> holds
  \<open>authorInclude\<close>, so the objects are put together after the branch has changed them.
  \<open>query.where\<close> is a plain object: \<open>query.where[field] = ...\<close> adds the key \<open>field\<close>, except
  for the field \<open>__proto__\<close>, where the assignment sets the prototype of the object and
  adds no key.\<close>

definition searchQuery :: "env \<Rightarrow> string \<Rightarrow> string \<Rightarrow> nat \<Rightarrow> nat \<Rightarrow> string \<Rightarrow> query" where
  \<open>searchQuery env value field start cnt sort' =
     (let podInclude = Include PodModel None (Some False) [];
          authorWhere = None;
          query0 = \<lparr>where' = [], offset = start, limit = cnt, distinct' = True,
                    order = [OrderBy (getSort env sort'), OrderByModel TagModel ''name'' ''ASC''],
                    include' = []\<rparr>;
          (query1, podInclude1, authorWhere1) =
            (if field = ''magnetUri'' then
               (let infoHash0 = magnet_decoded.infoHash (magnetDecode env value)
                in (query0\<lparr>where' := AList.update ''infoHash'' (Equals infoHash0) (where' query0)\<rparr>,
                    podInclude, authorWhere))
             else if field = ''tags'' then
               (let escapedValue = escape env (''%'' @ value @ ''%'')
                in (query0\<lparr>where' :=
                      [(''id'', InLiteral (''(SELECT "VideoTags"."videoId" FROM "Tags" INNER JOIN "VideoTags" ON "Tags"."id" = "VideoTags"."tagId" WHERE name LIKE '' @ escapedValue @ '')''))]\<rparr>,
                    podInclude, authorWhere))
             else if field = ''host'' then
               (query0,
                Include PodModel (Some [(''host'', Like (''%'' @ value @ ''%''))]) (Some True) [],
                authorWhere)
             else if field = ''author'' then
               (query0, podInclude, Some [(''name'', Like (''%'' @ value @ ''%''))])
             else if field = ''__proto__'' then
               (query0, podInclude, authorWhere)
             else
               (query0\<lparr>where' := AList.update field (Like (''%'' @ value @ ''%'')) (where' query0)\<rparr>,
                podInclude, authorWhere));
          authorInclude = Include AuthorModel authorWhere1 None [podInclude1];
          tagInclude = Include TagModel None None []
      in query1\<lparr>include' := [authorInclude, tagInclude]\<rparr>)\<close>

subsection \<open>The storage layer\<close>

text \<open>
  \<open>findAndCountAll\<close> belongs to the storage layer (Sequelize and the database), which is
  not part of the sources. The definitions of this subsection model what it does
  with the query object, from section 4.6 of the specification.
\<close>

text \<open>Modelled from the spec: how the storage layer, which is missing, reads a
  condition on a column value (\<open>None\<close> is NULL). A plain value asks for equality,
  \<open>$like\<close> for a LIKE match, \<open>$in\<close> for membership in what the literal subquery selects.\<close>

definition conditionHolds :: "env \<Rightarrow> condition \<Rightarrow> string option \<Rightarrow> bool" where
  "conditionHolds env c val =
     (case c of
        Equals x \<Rightarrow> val = x
      | Like pattern \<Rightarrow> (case val of None \<Rightarrow> False | Some t \<Rightarrow> sqlLike env pattern t)
      | InLiteral sql \<Rightarrow> (case val of None \<Rightarrow> False | Some t \<Rightarrow> t \<in> set (literalIds env sql)))"

text \<open>Modelled from the spec: a where object of the missing storage layer holds on a
  row when each of its conditions holds on the column it names.\<close>

definition whereHolds :: "env \<Rightarrow> where_object \<Rightarrow> (string \<times> string option) list \<Rightarrow> bool" where
  "whereHolds env w columns =
     list_all (\<lambda>(k, c). conditionHolds env c (case map_of columns k of None \<Rightarrow> None | Some val \<Rightarrow> val)) w"

text \<open>Modelled from the spec: the text columns of a row of the Videos table, as the
  missing storage layer holds them (the attributes of lines 25 to 73).\<close>

definition videoColumns :: "video \<Rightarrow> (string \<times> string option) list" where
  "videoColumns v =
     [(''id'', Some (video.id' v)), (''name'', Some (video.name v)),
      (''extname'', Some (video.extname v)), (''remoteId'', video.remoteId v),
      (''description'', Some (video.description v)), (''infoHash'', Some (video.infoHash v))]"

text \<open>Modelled from the spec: for the missing storage layer an include is required when
  it says so, or when it has a where object and says nothing.\<close>

definition isRequired :: "include_object \<Rightarrow> bool" where
  "isRequired inc = (case required inc of Some b \<Rightarrow> b | None \<Rightarrow> include_object.where' inc \<noteq> None)"

text \<open>Modelled from the spec: the where object of an include of the missing storage
  layer, empty when the include has none.\<close>

definition whereOf :: "include_object \<Rightarrow> where_object" where
  "whereOf inc = (case include_object.where' inc of None \<Rightarrow> [] | Some w \<Rightarrow> w)"

text \<open>Modelled from the spec: the join of the missing storage layer with the pod of the
  author. A required include of the Pod model keeps a video only if its author has
  a pod and the pod satisfies the where object of the include (\<open>require the pod join
  to be present\<close>); an include that is not required keeps every video.\<close>

definition podIncludeKeeps :: "env \<Rightarrow> pod option \<Rightarrow> include_object \<Rightarrow> bool" where
  "podIncludeKeeps env p inc =
     (if model inc = PodModel \<and> isRequired inc then
        (case p of None \<Rightarrow> False | Some q \<Rightarrow> whereHolds env (whereOf inc) [(''host'', Some (host q))])
      else True)"

text \<open>Modelled from the spec: the join of the missing storage layer with the author,
  whom every video has. A required include of the Author model keeps a video only
  if the author satisfies its where object, and the includes nested in it keep the
  video; the include of the Tag model keeps every video.\<close>

definition includeKeeps :: "env \<Rightarrow> video \<Rightarrow> include_object \<Rightarrow> bool" where
  "includeKeeps env v inc =
     (if model inc = AuthorModel then
        (if isRequired inc then
           whereHolds env (whereOf inc) [(''name'', Some (author.name (Author v)))]
         else True)
        \<and> list_all (podIncludeKeeps env (Pod (Author v))) (include_object.include' inc)
      else True)"

text \<open>Modelled from the spec: \<open>findAndCountAll\<close> of the missing storage layer. It passes
  the error with which the storage rejects the query, or else the page \<open>offset\<close>,
  \<open>limit\<close> of the videos that the where object and the includes keep, in the order
  asked for, and the number of these videos.\<close>

definition findAndCountAll :: "env \<Rightarrow> query \<Rightarrow> error + find_result" where
  "findAndCountAll env q =
     (case queryError env q of
        Some err \<Rightarrow> Inl err
      | None \<Rightarrow>
          (let kept = filter (\<lambda>v. whereHolds env (query.where' q) (videoColumns v)
                                  \<and> list_all (includeKeeps env v) (query.include' q))
                        (table env (order q))
           in Inr \<lparr>rows = take (limit q) (drop (offset q) kept), find_result.count = length kept\<rparr>))"

definition searchAndPopulateAuthorAndPodAndTags ::
  "env \<Rightarrow> string \<Rightarrow> string \<Rightarrow> nat \<Rightarrow> nat \<Rightarrow> string \<Rightarrow> error + video list \<times> nat" where
  "searchAndPopulateAuthorAndPodAndTags env value field start cnt sort' =
     (case findAndCountAll env (searchQuery env value field start cnt sort') of
        Inl err \<Rightarrow> Inl err
      | Inr result \<Rightarrow> Inr (rows result, find_result.count result))"

subsection \<open>Example values\<close>

definition exampleConstants :: constants where
  "exampleConstants =
     \<lparr>CONFIG_WEBSERVER_URL = ''http://localhost:9000'',
      CONFIG_WEBSERVER_WS = ''ws'',
      CONFIG_WEBSERVER_HOSTNAME = ''localhost'',
      CONFIG_WEBSERVER_PORT = ''9000'',
      CONFIG_WEBSERVER_HOST = ''localhost:9000'',
      CONFIG_STORAGE_VIDEOS_DIR = ''/videos/'',
      CONFIG_STORAGE_TORRENTS_DIR = ''/torrents/'',
      CONFIG_STORAGE_THUMBNAILS_DIR = ''/thumbnails/'',
      CONFIG_STORAGE_PREVIEWS_DIR = ''/previews/'',
      STATIC_PATHS_TORRENTS = ''/static/torrents/'',
      STATIC_PATHS_WEBSEED = ''/static/webseed/'',
      STATIC_PATHS_THUMBNAILS = ''/static/thumbnails'',
      REMOTE_SCHEME_HTTP = ''https'',
      REMOTE_SCHEME_WS = ''wss'',
      THUMBNAILS_SIZE = ''200x110''\<rparr>"

definition ownedExample :: video where
  "ownedExample =
     \<lparr>video.id' = ''v1'', video.name = ''Demo'', video.extname = ''.mp4'',
      video.remoteId = None, video.description = ''a demo'', video.infoHash = [],
      video.duration = 120, video.createdAt = 1000, video.updatedAt = 2000,
      Author = \<lparr>author.name = ''alice'', Pod = None\<rparr>,
      Tags = [\<lparr>tag.name = ''cats''\<rparr>, \<lparr>tag.name = ''dogs''\<rparr>]\<rparr>"

definition mirroredExample :: video where
  "mirroredExample =
     \<lparr>video.id' = ''v2'', video.name = ''Far'', video.extname = ''.mp4'',
      video.remoteId = Some ''abc'', video.description = ''from a peer'',
      video.infoHash = ''da39a3ee5e6b4b0d3255bfef95601890afd80709'',
      video.duration = 60, video.createdAt = 3000, video.updatedAt = 4000,
      Author = \<lparr>author.name = ''bob'', Pod = Some \<lparr>host = ''peer.example.org''\<rparr>\<rparr>,
      Tags = []\<rparr>"

text \<open>Collaborators that all succeed, except the broadcast to the friends, which fails.\<close>

definition exampleEnv :: env where
  "exampleEnv =
     \<lparr>pathJoin = (\<lambda>a b. a @ b),
      createTorrent = (\<lambda>path options. Inr [100, 56, 58]),
      writeFile = (\<lambda>path buffer. None),
      readFile = (\<lambda>path. Inr [255, 216, 0]),
      unlink = (\<lambda>path. None),
      parseTorrentDigest = (\<lambda>torrent. 0xa9993e364706816aba3e25717850c26c9cd0d89d),
      validate = (\<lambda>v. Inr None),
      thumbnail = (\<lambda>path options. None),
      removeVideoToFriends = (\<lambda>params. Returned (Some (Error ''peer unreachable''))),
      magnetEncode = (\<lambda>m. ''magnet:?xt=urn:btih:'' @ magnet_hash.infoHash m @ ''&xs='' @ xs m),
      magnetDecode = (\<lambda>uri. \<lparr>magnet_decoded.infoHash = Some (take 40 (drop 20 uri)),
                               magnet_decoded.name = None, magnet_decoded.announce = [],
                               magnet_decoded.urlList = []\<rparr>),
      insertRow = (\<lambda>v. None),
      getSort = (\<lambda>s. [s, ''ASC'']),
      escape = (\<lambda>s. ''<'' @ s @ ''>''),
      sqlLike = (\<lambda>pattern t. pattern = ''%'' @ t @ ''%''),
      literalIds = (\<lambda>sql. []),
      queryError = (\<lambda>q. None),
      table = (\<lambda>items. [ownedExample, mirroredExample])\<rparr>"

text \<open>Collaborators whose frame extraction fails for the preview (the call without a
  size) and succeeds for the thumbnail.\<close>

definition previewFailsEnv :: env where
  "previewFailsEnv =
     exampleEnv\<lparr>thumbnail := (\<lambda>path options.
        if size' options = None then Some (Error ''ffmpeg exited with code 1'') else None)\<rparr>"

text \<open>Collaborators whose frame extraction fails for the thumbnail (the call with a
  size) and succeeds for the preview.\<close>

definition thumbnailFailsEnv :: env where
  "thumbnailFailsEnv =
     exampleEnv\<lparr>thumbnail := (\<lambda>path options.
        if size' options = None then None else Some (Error ''ffmpeg exited with code 1''))\<rparr>"

text \<open>Collaborators whose torrent encoder fails.\<close>

definition encoderFailsEnv :: env where
  "encoderFailsEnv =
     exampleEnv\<lparr>createTorrent := (\<lambda>path options. Inl (Error ''cannot read the video file''))\<rparr>"

text \<open>Collaborators whose call of the friends module throws.\<close>

definition friendsThrowEnv :: env where
  "friendsThrowEnv =
     exampleEnv\<lparr>removeVideoToFriends := (\<lambda>params. Threw (TypeError ''Cannot read property of undefined''))\<rparr>"

section \<open>Properties\<close>

subsection \<open>parallel surfaces the first error\<close>

lemma firstError_None: "firstError completion rs = None \<longleftrightarrow> list_all (\<lambda>r. \<not> isl r) rs"
proof -
  let ?cands = "filter (\<lambda>i. i < length rs) completion @ [0..<length rs]"
  have "firstError completion rs = None \<longleftrightarrow> filter (\<lambda>i. isl (rs ! i)) ?cands = []"
    unfolding firstError_def by (cases "filter (\<lambda>i. isl (rs ! i)) ?cands") simp_all
  also have "\<dots> \<longleftrightarrow> (\<forall>i < length rs. \<not> isl (rs ! i))"
    by (auto simp: filter_empty_conv)
  also have "\<dots> \<longleftrightarrow> list_all (\<lambda>r. \<not> isl r) rs"
    by (simp add: list_all_length)
  finally show ?thesis .
qed

lemma firstError_Some:
  assumes "firstError completion rs = Some e"
  shows "Inl e \<in> set rs"
proof -
  let ?cands = "filter (\<lambda>i. i < length rs) completion @ [0..<length rs]"
  from assms obtain i js where f: "filter (\<lambda>i. isl (rs ! i)) ?cands = i # js"
    and e: "e = projl (rs ! i)"
    unfolding firstError_def by (cases "filter (\<lambda>i. isl (rs ! i)) ?cands") simp_all
  have "i \<in> set (filter (\<lambda>i. isl (rs ! i)) ?cands)"
    unfolding f by simp
  then have "i < length rs" and "isl (rs ! i)" by auto
  then show ?thesis using e by (metis nth_mem sum.collapse(1))
qed

lemma firstError_first:
  "i < length rs \<Longrightarrow> rs ! i = Inl e \<Longrightarrow> firstError (i # completion) rs = Some e"
  by (simp add: firstError_def)

subsection \<open>The creation hooks\<close>

lemma names_infoHash [simp]:
  "getVideoFilename (v\<lparr>video.infoHash := h\<rparr>) = getVideoFilename v"
  "getThumbnailName (v\<lparr>video.infoHash := h\<rparr>) = getThumbnailName v"
  "getPreviewName (v\<lparr>video.infoHash := h\<rparr>) = getPreviewName v"
  "getTorrentName (v\<lparr>video.infoHash := h\<rparr>) = getTorrentName v"
  "isOwned (v\<lparr>video.infoHash := h\<rparr>) = isOwned v"
  by (simp_all add: getVideoFilename_def getThumbnailName_def getPreviewName_def
      getTorrentName_def isOwned_def remoteIdText_def Let_def)

lemma torrentOptions_infoHash [simp]:
  "torrentOptions cfg (v\<lparr>video.infoHash := h\<rparr>) = torrentOptions cfg v"
  by (simp add: torrentOptions_def)

text \<open>The torrent task, read off its three calls.\<close>

lemma torrentTask_eq:
  "torrentTask cfg env p v =
     (Returned
        (case createTorrent env p (torrentOptions cfg v) of
           Inl err \<Rightarrow> Inl err
         | Inr torrent \<Rightarrow>
             (case writeFile env (CONFIG_STORAGE_TORRENTS_DIR cfg @ getTorrentName v) torrent of
                Some err \<Rightarrow> Inl err
              | None \<Rightarrow>
                  (case validate env (v\<lparr>video.infoHash := parseTorrent env torrent\<rparr>) of
                     Inl err \<Rightarrow> Inl err
                   | Inr r \<Rightarrow> Inr (Validation r)))),
      (case createTorrent env p (torrentOptions cfg v) of
         Inl err \<Rightarrow> v
       | Inr torrent \<Rightarrow>
           (case writeFile env (CONFIG_STORAGE_TORRENTS_DIR cfg @ getTorrentName v) torrent of
              Some err \<Rightarrow> v
            | None \<Rightarrow> v\<lparr>video.infoHash := parseTorrent env torrent\<rparr>)),
      CreateTorrent p (torrentOptions cfg v) #
      (case createTorrent env p (torrentOptions cfg v) of
         Inl err \<Rightarrow> []
       | Inr torrent \<Rightarrow> [WriteFile (CONFIG_STORAGE_TORRENTS_DIR cfg @ getTorrentName v) torrent]))"
  by (simp add: torrentTask_def Let_def split: sum.splits option.splits)

lemma torrentTask_video:
  "\<exists>h. fst (snd (torrentTask cfg env p v)) = v\<lparr>video.infoHash := h\<rparr>"
proof -
  have same: "\<exists>h. v = v\<lparr>video.infoHash := h\<rparr>"
    by (rule exI [of _ "video.infoHash v"]) simp
  show ?thesis
    unfolding torrentTask_eq using same by (auto split: sum.splits option.splits)
qed

lemma generateImage_eq:
  "generateImage env videoPath fld imageName sz =
     (case thumbnail env videoPath
             \<lparr>filename = imageName, image_options.count = 1, folder = fld, size' = sz\<rparr> of
        Some e \<Rightarrow> Inl e
      | None \<Rightarrow> Inr (ImageName imageName),
      [Thumbnail videoPath \<lparr>filename = imageName, image_options.count = 1, folder = fld, size' = sz\<rparr>])"
  by (simp add: generateImage_def Let_def)

lemma images_infoHash [simp]:
  "createThumbnail cfg env (v\<lparr>video.infoHash := h\<rparr>) p = createThumbnail cfg env v p"
  "createPreview cfg env (v\<lparr>video.infoHash := h\<rparr>) p = createPreview cfg env v p"
  by (simp_all add: createThumbnail_def createPreview_def)

lemma runTasks_beforeCreateTasks:
  assumes "isOwned v"
  shows "runTasks (beforeCreateTasks cfg env v) v =
     (let p = pathJoin env (CONFIG_STORAGE_VIDEOS_DIR cfg) (getVideoFilename v);
          t = torrentTask cfg env p v;
          th = createThumbnail cfg env v p;
          pr = createPreview cfg env v p
      in (Returned [case fst t of Returned r \<Rightarrow> r, fst th, fst pr], fst (snd t),
          snd (snd t) @ snd th @ snd pr))"
proof -
  let ?p = "pathJoin env (CONFIG_STORAGE_VIDEOS_DIR cfg) (getVideoFilename v)"
  obtain h where h: "fst (snd (torrentTask cfg env ?p v)) = v\<lparr>video.infoHash := h\<rparr>"
    using torrentTask_video by blast
  obtain r where r: "fst (torrentTask cfg env ?p v) = Returned r"
    by (simp add: torrentTask_eq)
  obtain fx where fx: "snd (snd (torrentTask cfg env ?p v)) = fx"
    by simp
  from h r fx have t: "torrentTask cfg env ?p v = (Returned r, v\<lparr>video.infoHash := h\<rparr>, fx)"
    by (simp add: prod_eq_iff)
  show ?thesis
    using assms
    by (simp add: beforeCreateTasks_def Let_def reading_def t split: prod.splits)
qed

lemma fst_nextOf:
  "fst (nextOf r) =
     (case fst r of Threw e \<Rightarrow> Threw e | Returned (Inl e) \<Rightarrow> Returned (Some e)
      | Returned (Inr x) \<Rightarrow> Returned None)"
  by (cases r) (auto simp: nextOf_def split: sum.splits outcome.splits)

lemma snd_nextOf: "snd (nextOf r) = snd r"
  by (cases r) (auto simp: nextOf_def split: sum.splits outcome.splits)

lemma fst_parallel:
  "fst (parallel completion tasks v) =
     (case fst (runTasks tasks v) of
        Threw e \<Rightarrow> Threw e
      | Returned rs \<Rightarrow>
          (case firstError completion rs of
             Some e \<Rightarrow> Returned (Inl e)
           | None \<Rightarrow> Returned (Inr (map projr rs))))"
  by (simp add: parallel_def split: prod.splits option.splits outcome.splits)

lemma snd_parallel: "snd (parallel completion tasks v) = snd (runTasks tasks v)"
  by (simp add: parallel_def split: prod.splits option.splits outcome.splits)

lemma hookError:
  "fst (nextOf (parallel completion tasks v)) =
     (case fst (runTasks tasks v) of
        Threw e \<Rightarrow> Threw e
      | Returned rs \<Rightarrow> Returned (firstError completion rs))"
  by (simp add: fst_nextOf fst_parallel split: option.splits outcome.splits)

lemma beforeCreate_video:
  "\<exists>h. fst (snd (beforeCreate cfg env completion v)) = v\<lparr>video.infoHash := h\<rparr>"
proof (cases "isOwned v")
  case True
  obtain h where h: "fst (snd (torrentTask cfg env
      (pathJoin env (CONFIG_STORAGE_VIDEOS_DIR cfg) (getVideoFilename v)) v)) = v\<lparr>video.infoHash := h\<rparr>"
    using torrentTask_video by blast
  have "fst (snd (beforeCreate cfg env completion v)) = v\<lparr>video.infoHash := h\<rparr>"
    using True h
    by (simp add: beforeCreate_def snd_nextOf snd_parallel runTasks_beforeCreateTasks Let_def)
  then show ?thesis by blast
next
  case False
  then have "fst (snd (beforeCreate cfg env completion v)) = v\<lparr>video.infoHash := video.infoHash v\<rparr>"
    by (simp add: beforeCreate_def)
  then show ?thesis by blast
qed

lemma beforeCreate_eq:
  assumes "isOwned v"
  shows "beforeCreate cfg env completion v =
     (let videoPath = pathJoin env (CONFIG_STORAGE_VIDEOS_DIR cfg) (getVideoFilename v);
          t = torrentTask cfg env videoPath v;
          th = createThumbnail cfg env v videoPath;
          pr = createPreview cfg env v videoPath
      in (Returned (firstError completion [case fst t of Returned r \<Rightarrow> r, fst th, fst pr]),
          fst (snd t), snd (snd t) @ snd th @ snd pr))"
  using assms
  by (simp add: beforeCreate_def prod_eq_iff hookError snd_nextOf snd_parallel
      runTasks_beforeCreateTasks Let_def)

lemma create_success:
  assumes "fst (create cfg env completion v) = Inr v'"
  shows "validate env (snd (beforeValidate v)) = Inr None
         \<and> fst (beforeCreate cfg env completion (snd (beforeValidate v))) = Returned None
         \<and> v' = fst (snd (beforeCreate cfg env completion (snd (beforeValidate v))))"
  using assms
  by (auto simp: create_def beforeValidate_def
      split: sum.splits option.splits prod.splits if_splits outcome.splits)

lemma create_hook_error:
  assumes "validate env (snd (beforeValidate v)) = Inr None"
    and "fst (beforeCreate cfg env completion (snd (beforeValidate v))) = Returned (Some e)"
  shows "fst (create cfg env completion v) = Inl e"
  using assms
  by (auto simp: create_def beforeValidate_def split: prod.splits if_splits)


subsection \<open>The hexadecimal text of a digest\<close>








subsection \<open>The destroy hook\<close>

lemma unlinkFile_simps:
  "fst (unlinkFile env path) = (case unlink env path of Some err \<Rightarrow> Inl err | None \<Rightarrow> Inr Undefined)"
  "snd (unlinkFile env path) = [Unlink path]"
  by (simp_all add: unlinkFile_def)

lemma removeVideoToFriendsTask_eq:
  "removeVideoToFriendsTask env v =
     (case removeVideoToFriends env
             \<lparr>remove_params.name = video.name v, remove_params.remoteId = video.id' v\<rparr> of
        Threw e \<Rightarrow> Threw e
      | Returned r \<Rightarrow> Returned (Inr Undefined),
      v,
      [RemoveVideoToFriends \<lparr>remove_params.name = video.name v, remove_params.remoteId = video.id' v\<rparr>
         (removeVideoToFriends env
            \<lparr>remove_params.name = video.name v, remove_params.remoteId = video.id' v\<rparr>)])"
  by (simp add: removeVideoToFriendsTask_def Let_def split: outcome.splits)

lemma runTasks_afterDestroyTasks:
  "runTasks (afterDestroyTasks cfg env v) v =
     (if isOwned v then
        (case removeVideoToFriends env
                \<lparr>remove_params.name = video.name v, remove_params.remoteId = video.id' v\<rparr> of
           Threw e \<Rightarrow> Threw e
         | Returned r \<Rightarrow>
             Returned [fst (removeThumbnail cfg env v), fst (removeFile cfg env v),
                       fst (removeTorrent cfg env v), fst (removePreview cfg env v), Inr Undefined],
         v,
         snd (removeThumbnail cfg env v) @ snd (removeFile cfg env v) @ snd (removeTorrent cfg env v)
           @ snd (removePreview cfg env v) @ snd (snd (removeVideoToFriendsTask env v)))
      else (Returned [fst (removeThumbnail cfg env v)], v, snd (removeThumbnail cfg env v)))"
  by (auto simp: afterDestroyTasks_def reading_def removeVideoToFriendsTask_eq
      split: prod.splits outcome.splits)

lemma afterDestroy_effects:
  "snd (snd (afterDestroy cfg env completion v)) =
     Unlink (CONFIG_STORAGE_THUMBNAILS_DIR cfg @ getThumbnailName v) #
     (if isOwned v then
        [Unlink (CONFIG_STORAGE_VIDEOS_DIR cfg @ getVideoFilename v),
         Unlink (CONFIG_STORAGE_TORRENTS_DIR cfg @ getTorrentName v),
         Unlink (CONFIG_STORAGE_PREVIEWS_DIR cfg @ getPreviewName v),
         RemoveVideoToFriends \<lparr>remove_params.name = video.name v, remove_params.remoteId = video.id' v\<rparr>
           (removeVideoToFriends env
              \<lparr>remove_params.name = video.name v, remove_params.remoteId = video.id' v\<rparr>)]
      else [])"
  by (simp add: afterDestroy_def snd_nextOf snd_parallel runTasks_afterDestroyTasks
      removeThumbnail_def removeFile_def removeTorrent_def removePreview_def unlinkFile_simps
      removeVideoToFriendsTask_eq)

lemma afterDestroy_result:
  "fst (afterDestroy cfg env completion v) =
     (case fst (runTasks (afterDestroyTasks cfg env v) v) of
        Threw e \<Rightarrow> Threw e
      | Returned rs \<Rightarrow> Returned (firstError completion rs))"
  by (simp add: afterDestroy_def hookError)

lemma afterDestroy_video: "fst (snd (afterDestroy cfg env completion v)) = v"
  by (simp add: afterDestroy_def snd_nextOf snd_parallel runTasks_afterDestroyTasks)

subsection \<open>Binary strings\<close>

lemma binary_roundtrip: "bufferFromBinary (toBinaryString buffer) = buffer"
proof -
  have "(of_char (char_of (unat b)) :: 8 word) = b" for b :: "8 word"
  proof -
    have less: "unat b < 256"
      using unsigned_less [of b, where ?'a = nat] by simp
    have "(of_char (char_of (unat b)) :: 8 word) = of_nat (of_char (char_of (unat b)))"
      by (simp only: of_nat_of_char)
    also have "(of_char (char_of (unat b)) :: nat) = unat b"
      using less by simp
    finally show ?thesis by simp
  qed
  then show ?thesis
    by (simp add: bufferFromBinary_def toBinaryString_def map_idI)
qed

subsection \<open>A mirrored video without a pod\<close>

lemma generateMagnetUri_no_pod:
  "\<not> isOwned v \<Longrightarrow> Pod (Author v) = None \<Longrightarrow>
   generateMagnetUri cfg env v = Inl (TypeError ''Cannot read property host of null'')"
  by (simp add: generateMagnetUri_def)

subsection \<open>The rows a search returns\<close>

lemma search_rows_kept:
  assumes "searchAndPopulateAuthorAndPodAndTags env value field start cnt sort' = Inr (found, n)"
    and "v \<in> set found"
  shows "whereHolds env (query.where' (searchQuery env value field start cnt sort')) (videoColumns v)
         \<and> list_all (includeKeeps env v) (query.include' (searchQuery env value field start cnt sort'))"
proof -
  let ?q = "searchQuery env value field start cnt sort'"
  let ?kept = "filter (\<lambda>v. whereHolds env (query.where' ?q) (videoColumns v)
                           \<and> list_all (includeKeeps env v) (query.include' ?q))
                 (table env (order ?q))"
  from assms(1) have "found = take (limit ?q) (drop (offset ?q) ?kept)"
    by (auto simp: searchAndPopulateAuthorAndPodAndTags_def findAndCountAll_def Let_def
        split: option.splits sum.splits)
  with assms(2) have "v \<in> set ?kept"
    by (metis in_set_dropD in_set_takeD)
  then show ?thesis by simp
qed

lemma search_error:
  "searchAndPopulateAuthorAndPodAndTags env value field start cnt sort' = Inl err
   \<longleftrightarrow> queryError env (searchQuery env value field start cnt sort') = Some err"
  by (auto simp: searchAndPopulateAuthorAndPodAndTags_def findAndCountAll_def Let_def
      split: option.splits sum.splits)

subsection \<open>File names\<close>

text \<open>
  C6. The naming functions depend on the ownership, \<open>id\<close>, \<open>remoteId\<close> and \<open>extname\<close>
  only. The video file name is \<open>id\<close> followed by \<open>extname\<close> for an owned video and
  \<open>remoteId\<close> followed by \<open>extname\<close> otherwise; the thumbnail name is \<open>id\<close> followed by
  \<open>.jpg\<close> in every case; the preview and torrent names branch like the video file
  name, with the extensions \<open>.jpg\<close> and \<open>.torrent\<close>.
\<close>

theorem naming_functions:
  "(isOwned v \<longrightarrow> getVideoFilename v = video.id' v @ video.extname v
                \<and> getPreviewName v = video.id' v @ ''.jpg''
                \<and> getTorrentName v = video.id' v @ ''.torrent'')
   \<and> (\<forall>r. video.remoteId v = Some r \<longrightarrow>
          \<not> isOwned v
          \<and> getVideoFilename v = r @ video.extname v
          \<and> getPreviewName v = r @ ''.jpg''
          \<and> getTorrentName v = r @ ''.torrent'')
   \<and> getThumbnailName v = video.id' v @ ''.jpg''
   \<and> (video.id' w = video.id' v \<and> video.remoteId w = video.remoteId v
        \<and> video.extname w = video.extname v \<longrightarrow>
          getVideoFilename w = getVideoFilename v \<and> getThumbnailName w = getThumbnailName v
          \<and> getPreviewName w = getPreviewName v \<and> getTorrentName w = getTorrentName v)"
  by (auto simp: getVideoFilename_def getPreviewName_def getTorrentName_def getThumbnailName_def
      isOwned_def remoteIdText_def Let_def)

theorem naming_functions_witness:
  "getVideoFilename ownedExample = ''v1.mp4'' \<and> getPreviewName ownedExample = ''v1.jpg''
   \<and> getTorrentName ownedExample = ''v1.torrent''
   \<and> getVideoFilename mirroredExample = ''abc.mp4'' \<and> getPreviewName mirroredExample = ''abc.jpg''
   \<and> getTorrentName mirroredExample = ''abc.torrent''
   \<and> getThumbnailName mirroredExample = ''v2.jpg''
   \<and> getVideoFilename (mirroredExample\<lparr>video.name := ''Other''\<rparr>) = getVideoFilename mirroredExample"
proof -
  have o: "isOwned ownedExample"
    by (simp add: isOwned_def ownedExample_def)
  have m: "video.remoteId mirroredExample = Some ''abc''"
    by (simp add: mirroredExample_def)
  have s: "video.id' (mirroredExample\<lparr>video.name := ''Other''\<rparr>) = video.id' mirroredExample
           \<and> video.remoteId (mirroredExample\<lparr>video.name := ''Other''\<rparr>) = video.remoteId mirroredExample
           \<and> video.extname (mirroredExample\<lparr>video.name := ''Other''\<rparr>) = video.extname mirroredExample"
    by simp
  from o naming_functions [of ownedExample ownedExample]
  have 1: "getVideoFilename ownedExample = ''v1.mp4'' \<and> getPreviewName ownedExample = ''v1.jpg''
           \<and> getTorrentName ownedExample = ''v1.torrent''"
    by (simp add: ownedExample_def)
  from m s naming_functions [of mirroredExample "mirroredExample\<lparr>video.name := ''Other''\<rparr>"]
  have 2: "getVideoFilename mirroredExample = ''abc.mp4'' \<and> getPreviewName mirroredExample = ''abc.jpg''
           \<and> getTorrentName mirroredExample = ''abc.torrent''
           \<and> getThumbnailName mirroredExample = ''v2.jpg''
           \<and> getVideoFilename (mirroredExample\<lparr>video.name := ''Other''\<rparr>) = getVideoFilename mirroredExample"
    by (simp add: mirroredExample_def)
  from 1 2 show ?thesis by simp
qed

subsection \<open>The info-hash after a creation\<close>



subsection \<open>The creation pipeline\<close>

text \<open>
  C2. For every owned video, \<open>beforeCreate\<close> starts exactly three tasks: the torrent
  task (it encodes the torrent of the video file, writes it, commits the parsed
  info-hash on the record and validates), the thumbnail extraction (one frame at the
  thumbnail size into the thumbnails directory) and the preview extraction (one
  frame with no size into the previews directory). Each task passes the error of
  the call that failed; a validation whose promise is fulfilled counts as done,
  whatever its value. The hook passes no error exactly when none of the three tasks
  passes one; an error it passes is the error of one of the three tasks, and a
  failing task that completes first has its error passed. An error of the hook makes
  the creation fail with that error, and a creation that succeeds has had the
  encoder, the write, the validation and both extractions end without an error.
\<close>

theorem beforeCreate_all_or_nothing:
  assumes "isOwned v"
  shows
    "let videoPath = pathJoin env (CONFIG_STORAGE_VIDEOS_DIR cfg) (getVideoFilename v);
         options = \<lparr>announceList =
                      [[CONFIG_WEBSERVER_WS cfg @ ''://'' @ CONFIG_WEBSERVER_HOSTNAME cfg @ '':''
                          @ CONFIG_WEBSERVER_PORT cfg @ ''/tracker/socket'']],
                    torrent_options.urlList =
                      [CONFIG_WEBSERVER_URL cfg @ STATIC_PATHS_WEBSEED cfg @ getVideoFilename v]\<rparr>;
         torrentPath = CONFIG_STORAGE_TORRENTS_DIR cfg @ getTorrentName v;
         thumbnailOptions = \<lparr>filename = getThumbnailName v, image_options.count = 1,
                             folder = CONFIG_STORAGE_THUMBNAILS_DIR cfg,
                             size' = Some (THUMBNAILS_SIZE cfg)\<rparr>;
         previewOptions = \<lparr>filename = getPreviewName v, image_options.count = 1,
                           folder = CONFIG_STORAGE_PREVIEWS_DIR cfg, size' = None\<rparr>;
         torrentResult =
           (case createTorrent env videoPath options of
              Inl err \<Rightarrow> Inl err
            | Inr torrent \<Rightarrow>
                (case writeFile env torrentPath torrent of
                   Some err \<Rightarrow> Inl err
                 | None \<Rightarrow>
                     (case validate env (v\<lparr>video.infoHash := parseTorrent env torrent\<rparr>) of
                        Inl err \<Rightarrow> Inl err
                      | Inr r \<Rightarrow> Inr (Validation r))));
         thumbnailResult =
           (case thumbnail env videoPath thumbnailOptions of
              Some err \<Rightarrow> Inl err
            | None \<Rightarrow> Inr (ImageName (getThumbnailName v)));
         previewResult =
           (case thumbnail env videoPath previewOptions of
              Some err \<Rightarrow> Inl err
            | None \<Rightarrow> Inr (ImageName (getPreviewName v)));
         results = [torrentResult, thumbnailResult, previewResult]
     in length (beforeCreateTasks cfg env v) = 3
      \<and> fst (runTasks (beforeCreateTasks cfg env v) v) = Returned results
      \<and> snd (snd (beforeCreate cfg env completion v)) =
          CreateTorrent videoPath options #
          (case createTorrent env videoPath options of
             Inl err \<Rightarrow> []
           | Inr torrent \<Rightarrow> [WriteFile torrentPath torrent])
          @ [Thumbnail videoPath thumbnailOptions, Thumbnail videoPath previewOptions]
      \<and> fst (snd (beforeCreate cfg env completion v)) =
          (case createTorrent env videoPath options of
             Inl err \<Rightarrow> v
           | Inr torrent \<Rightarrow>
               (case writeFile env torrentPath torrent of
                  Some err \<Rightarrow> v
                | None \<Rightarrow> v\<lparr>video.infoHash := parseTorrent env torrent\<rparr>))
      \<and> fst (beforeCreate cfg env completion v) = Returned (firstError completion results)
      \<and> (fst (beforeCreate cfg env completion v) = Returned None
           \<longleftrightarrow> \<not> isl torrentResult \<and> \<not> isl thumbnailResult \<and> \<not> isl previewResult)
      \<and> (\<forall>e. fst (beforeCreate cfg env completion v) = Returned (Some e)
           \<longrightarrow> torrentResult = Inl e \<or> thumbnailResult = Inl e \<or> previewResult = Inl e)
      \<and> (\<forall>i e. i < 3 \<and> results ! i = Inl e
           \<longrightarrow> fst (beforeCreate cfg env (i # completion) v) = Returned (Some e))
      \<and> (\<forall>e. validate env (snd (beforeValidate v)) = Inr None
               \<and> fst (beforeCreate cfg env completion (snd (beforeValidate v))) = Returned (Some e)
           \<longrightarrow> fst (create cfg env completion v) = Inl e)
      \<and> (\<forall>v'. fst (create cfg env completion v) = Inr v'
           \<longrightarrow> (\<exists>torrent r.
                  createTorrent env videoPath options = Inr torrent
                  \<and> writeFile env torrentPath torrent = None
                  \<and> validate env (v\<lparr>video.infoHash := parseTorrent env torrent\<rparr>) = Inr r
                  \<and> thumbnail env videoPath thumbnailOptions = None
                  \<and> thumbnail env videoPath previewOptions = None))"
proof -
  let ?videoPath = "pathJoin env (CONFIG_STORAGE_VIDEOS_DIR cfg) (getVideoFilename v)"
  let ?options = "torrentOptions cfg v"
  let ?torrentPath = "CONFIG_STORAGE_TORRENTS_DIR cfg @ getTorrentName v"
  let ?thumbnailOptions = "\<lparr>filename = getThumbnailName v, image_options.count = 1,
                             folder = CONFIG_STORAGE_THUMBNAILS_DIR cfg,
                             size' = Some (THUMBNAILS_SIZE cfg)\<rparr>"
  let ?previewOptions = "\<lparr>filename = getPreviewName v, image_options.count = 1,
                           folder = CONFIG_STORAGE_PREVIEWS_DIR cfg, size' = None\<rparr>"
  let ?t = "\<lambda>u. case createTorrent env ?videoPath ?options of
              Inl err \<Rightarrow> Inl err
            | Inr torrent \<Rightarrow>
                (case writeFile env ?torrentPath torrent of
                   Some err \<Rightarrow> Inl err
                 | None \<Rightarrow>
                     (case validate env (u\<lparr>video.infoHash := parseTorrent env torrent\<rparr>) of
                        Inl err \<Rightarrow> Inl err
                      | Inr r \<Rightarrow> Inr (Validation r)))"
  let ?th = "case thumbnail env ?videoPath ?thumbnailOptions of
              Some err \<Rightarrow> Inl err
            | None \<Rightarrow> Inr (ImageName (getThumbnailName v))"
  let ?pr = "case thumbnail env ?videoPath ?previewOptions of
              Some err \<Rightarrow> Inl err
            | None \<Rightarrow> Inr (ImageName (getPreviewName v))"
  let ?rs = "[?t v, ?th, ?pr]"
  let ?v1 = "snd (beforeValidate v)"
  have v1: "?v1 = v\<lparr>video.infoHash := ''0123456789abcdef0123456789abcdef01234567''\<rparr>"
    using assms by (simp add: beforeValidate_def)
  then have o1: "isOwned ?v1" using assms by simp
  have hook: "beforeCreate cfg env c u =
      (Returned (firstError c [?t u, ?th, ?pr]),
       (case createTorrent env ?videoPath ?options of
             Inl err \<Rightarrow> u
           | Inr torrent \<Rightarrow>
               (case writeFile env ?torrentPath torrent of
                  Some err \<Rightarrow> u
                | None \<Rightarrow> u\<lparr>video.infoHash := parseTorrent env torrent\<rparr>)),
       CreateTorrent ?videoPath ?options #
          (case createTorrent env ?videoPath ?options of
             Inl err \<Rightarrow> []
           | Inr torrent \<Rightarrow> [WriteFile ?torrentPath torrent])
          @ [Thumbnail ?videoPath ?thumbnailOptions, Thumbnail ?videoPath ?previewOptions])"
    if "u = v \<or> u = ?v1" for c u
  proof -
    from that v1 assms have u: "isOwned u" "getVideoFilename u = getVideoFilename v"
      "getTorrentName u = getTorrentName v" "getThumbnailName u = getThumbnailName v"
      "getPreviewName u = getPreviewName v" "torrentOptions cfg u = torrentOptions cfg v"
      by auto
    show ?thesis
      by (simp add: beforeCreate_eq [OF u(1)] Let_def torrentTask_eq createThumbnail_def
          createPreview_def generateImage_eq u cong: sum.case_cong option.case_cong)
  qed
  have tasks: "length (beforeCreateTasks cfg env v) = 3"
    using assms by (simp add: beforeCreateTasks_def Let_def)
  have run: "fst (runTasks (beforeCreateTasks cfg env v) v) = Returned ?rs"
    using assms
    by (simp add: runTasks_beforeCreateTasks Let_def torrentTask_eq createThumbnail_def
        createPreview_def generateImage_eq cong: sum.case_cong option.case_cong)
  have none: "fst (beforeCreate cfg env completion v) = Returned None
           \<longleftrightarrow> \<not> isl (?t v) \<and> \<not> isl ?th \<and> \<not> isl ?pr"
    by (simp add: hook firstError_None)
  have some: "\<forall>e. fst (beforeCreate cfg env completion v) = Returned (Some e)
           \<longrightarrow> ?t v = Inl e \<or> ?th = Inl e \<or> ?pr = Inl e"
  proof (intro allI impI)
    fix e assume "fst (beforeCreate cfg env completion v) = Returned (Some e)"
    then have "firstError completion ?rs = Some e" by (simp add: hook)
    from firstError_Some [OF this] show "?t v = Inl e \<or> ?th = Inl e \<or> ?pr = Inl e"
      by auto
  qed
  have first: "\<forall>i e. i < 3 \<and> ?rs ! i = Inl e
           \<longrightarrow> fst (beforeCreate cfg env (i # completion) v) = Returned (Some e)"
  proof (intro allI impI, elim conjE)
    fix i e assume "i < 3" and "?rs ! i = Inl e"
    then have "firstError (i # completion) ?rs = Some e"
      by (intro firstError_first) simp_all
    then show "fst (beforeCreate cfg env (i # completion) v) = Returned (Some e)"
      by (simp add: hook)
  qed
  have fails: "\<forall>e. validate env ?v1 = Inr None
               \<and> fst (beforeCreate cfg env completion ?v1) = Returned (Some e)
           \<longrightarrow> fst (create cfg env completion v) = Inl e"
    using create_hook_error by blast
  have succeeds: "\<forall>v'. fst (create cfg env completion v) = Inr v'
           \<longrightarrow> (\<exists>torrent r.
                  createTorrent env ?videoPath ?options = Inr torrent
                  \<and> writeFile env ?torrentPath torrent = None
                  \<and> validate env (v\<lparr>video.infoHash := parseTorrent env torrent\<rparr>) = Inr r
                  \<and> thumbnail env ?videoPath ?thumbnailOptions = None
                  \<and> thumbnail env ?videoPath ?previewOptions = None)"
  proof (intro allI impI)
    fix v' assume "fst (create cfg env completion v) = Inr v'"
    from create_success [OF this] have "fst (beforeCreate cfg env completion ?v1) = Returned None"
      by simp
    then have "\<not> isl (?t ?v1) \<and> \<not> isl ?th \<and> \<not> isl ?pr"
      by (simp add: hook firstError_None)
    then show "\<exists>torrent r.
                  createTorrent env ?videoPath ?options = Inr torrent
                  \<and> writeFile env ?torrentPath torrent = None
                  \<and> validate env (v\<lparr>video.infoHash := parseTorrent env torrent\<rparr>) = Inr r
                  \<and> thumbnail env ?videoPath ?thumbnailOptions = None
                  \<and> thumbnail env ?videoPath ?previewOptions = None"
      by (auto simp: v1 split: sum.splits option.splits)
  qed
  show ?thesis
    unfolding Let_def torrentOptions_def [symmetric]
    using tasks run none some first fails succeeds
    by (simp add: hook)
qed

theorem beforeCreate_all_or_nothing_witness:
  "isOwned ownedExample
   \<and> fst (beforeCreate exampleConstants exampleEnv [] ownedExample) = Returned None
   \<and> snd (snd (beforeCreate exampleConstants exampleEnv [] ownedExample)) =
       [CreateTorrent ''/videos/v1.mp4''
          \<lparr>announceList = [[''ws://localhost:9000/tracker/socket'']],
           torrent_options.urlList = [''http://localhost:9000/static/webseed/v1.mp4'']\<rparr>,
        WriteFile ''/torrents/v1.torrent'' [100, 56, 58],
        Thumbnail ''/videos/v1.mp4''
          \<lparr>filename = ''v1.jpg'', image_options.count = 1, folder = ''/thumbnails/'',
           size' = Some ''200x110''\<rparr>,
        Thumbnail ''/videos/v1.mp4''
          \<lparr>filename = ''v1.jpg'', image_options.count = 1, folder = ''/previews/'', size' = None\<rparr>]
   \<and> fst (beforeCreate exampleConstants encoderFailsEnv [] ownedExample)
       = Returned (Some (Error ''cannot read the video file''))
   \<and> fst (beforeCreate exampleConstants thumbnailFailsEnv [] ownedExample)
       = Returned (Some (Error ''ffmpeg exited with code 1''))
   \<and> fst (beforeCreate exampleConstants previewFailsEnv [] ownedExample)
       = Returned (Some (Error ''ffmpeg exited with code 1''))
   \<and> fst (create exampleConstants previewFailsEnv [] ownedExample)
       = Inl (Error ''ffmpeg exited with code 1'')"
proof -
  have o: "isOwned ownedExample"
    by (simp add: isOwned_def ownedExample_def)
  have n: "getVideoFilename ownedExample = ''v1.mp4''" "getTorrentName ownedExample = ''v1.torrent''"
    "getThumbnailName ownedExample = ''v1.jpg''" "getPreviewName ownedExample = ''v1.jpg''"
    by code_simp+
  note ok = beforeCreate_all_or_nothing [OF o, of exampleEnv exampleConstants "[]", unfolded Let_def]
  note enc = beforeCreate_all_or_nothing [OF o, of encoderFailsEnv exampleConstants "[]", unfolded Let_def]
  note thu = beforeCreate_all_or_nothing [OF o, of thumbnailFailsEnv exampleConstants "[]", unfolded Let_def]
  note pre = beforeCreate_all_or_nothing [OF o, of previewFailsEnv exampleConstants "[]", unfolded Let_def]
  have 1: "fst (beforeCreate exampleConstants exampleEnv [] ownedExample) = Returned None"
    unfolding ok [THEN conjunct2, THEN conjunct2, THEN conjunct2, THEN conjunct2, THEN conjunct2,
        THEN conjunct1]
    by (simp add: exampleEnv_def)
  have 2: "snd (snd (beforeCreate exampleConstants exampleEnv [] ownedExample)) =
       [CreateTorrent ''/videos/v1.mp4''
          \<lparr>announceList = [[''ws://localhost:9000/tracker/socket'']],
           torrent_options.urlList = [''http://localhost:9000/static/webseed/v1.mp4'']\<rparr>,
        WriteFile ''/torrents/v1.torrent'' [100, 56, 58],
        Thumbnail ''/videos/v1.mp4''
          \<lparr>filename = ''v1.jpg'', image_options.count = 1, folder = ''/thumbnails/'',
           size' = Some ''200x110''\<rparr>,
        Thumbnail ''/videos/v1.mp4''
          \<lparr>filename = ''v1.jpg'', image_options.count = 1, folder = ''/previews/'', size' = None\<rparr>]"
    unfolding ok [THEN conjunct2, THEN conjunct2, THEN conjunct1] n
    by (simp add: exampleEnv_def exampleConstants_def)
  have 3: "fst (beforeCreate exampleConstants encoderFailsEnv [] ownedExample)
       = Returned (Some (Error ''cannot read the video file''))"
    unfolding enc [THEN conjunct2, THEN conjunct2, THEN conjunct2, THEN conjunct2, THEN conjunct1]
    by (simp add: encoderFailsEnv_def exampleEnv_def firstError_def upt_rec)
  have 4: "fst (beforeCreate exampleConstants thumbnailFailsEnv [] ownedExample)
       = Returned (Some (Error ''ffmpeg exited with code 1''))"
    unfolding thu [THEN conjunct2, THEN conjunct2, THEN conjunct2, THEN conjunct2, THEN conjunct1]
    by (simp add: thumbnailFailsEnv_def exampleEnv_def firstError_def upt_rec)
  have 5: "fst (beforeCreate exampleConstants previewFailsEnv [] ownedExample)
       = Returned (Some (Error ''ffmpeg exited with code 1''))"
    unfolding pre [THEN conjunct2, THEN conjunct2, THEN conjunct2, THEN conjunct2, THEN conjunct1]
    by (simp add: previewFailsEnv_def exampleEnv_def firstError_def upt_rec)
  have 6: "fst (create exampleConstants previewFailsEnv [] ownedExample)
       = Inl (Error ''ffmpeg exited with code 1'')"
    by code_simp
  from o 1 2 3 4 5 6 show ?thesis by (intro conjI)
qed

subsection \<open>Ownership\<close>

text \<open>
  C5. For every video, \<open>isOwned\<close> is true if and only if \<open>remoteId\<close> is null. The
  answer depends on \<open>remoteId\<close> alone, so it holds after any update, and a creation
  leaves \<open>remoteId\<close> as it was, so it holds after creation.
\<close>

theorem isOwned_iff_remoteId_null:
  "(isOwned v \<longleftrightarrow> video.remoteId v = None)
   \<and> (video.remoteId w = video.remoteId v \<longrightarrow> isOwned w = isOwned v)
   \<and> (\<forall>v'. fst (create cfg env completion v) = Inr v'
         \<longrightarrow> video.remoteId v' = video.remoteId v \<and> (isOwned v' \<longleftrightarrow> video.remoteId v' = None))"
proof -
  have "video.remoteId v' = video.remoteId v" if c: "fst (create cfg env completion v) = Inr v'" for v'
  proof -
    let ?v1 = "snd (beforeValidate v)"
    have r1: "video.remoteId ?v1 = video.remoteId v"
      by (simp add: beforeValidate_def)
    obtain h where "fst (snd (beforeCreate cfg env completion ?v1)) = ?v1\<lparr>video.infoHash := h\<rparr>"
      using beforeCreate_video by blast
    with create_success [OF c] have "v' = ?v1\<lparr>video.infoHash := h\<rparr>" by simp
    with r1 show ?thesis by simp
  qed
  then show ?thesis by (simp add: isOwned_def)
qed

theorem isOwned_iff_remoteId_null_witness:
  "isOwned ownedExample \<and> \<not> isOwned mirroredExample
   \<and> isOwned (ownedExample\<lparr>video.description := ''edited''\<rparr>)
   \<and> video.remoteId (ownedExample\<lparr>video.infoHash := ''a9993e364706816aba3e25717850c26c9cd0d89d''\<rparr>) = None"
proof -
  have c: "fst (create exampleConstants exampleEnv [] ownedExample)
       = Inr (ownedExample\<lparr>video.infoHash := ''a9993e364706816aba3e25717850c26c9cd0d89d''\<rparr>)"
    by code_simp
  have r: "video.remoteId ownedExample = None" "video.remoteId mirroredExample = Some ''abc''"
    by (simp_all add: ownedExample_def mirroredExample_def)
  have u: "video.remoteId (ownedExample\<lparr>video.description := ''edited''\<rparr>) = video.remoteId ownedExample"
    by simp
  from isOwned_iff_remoteId_null [of ownedExample "ownedExample\<lparr>video.description := ''edited''\<rparr>"
      exampleConstants exampleEnv "[]"] c r u
  have 1: "isOwned ownedExample \<and> isOwned (ownedExample\<lparr>video.description := ''edited''\<rparr>)
    \<and> video.remoteId (ownedExample\<lparr>video.infoHash := ''a9993e364706816aba3e25717850c26c9cd0d89d''\<rparr>) = None"
    by simp
  from isOwned_iff_remoteId_null [of mirroredExample mirroredExample exampleConstants exampleEnv "[]"] r
  have 2: "\<not> isOwned mirroredExample" by simp
  from 1 2 show ?thesis by simp
qed

subsection \<open>What a destruction removes\<close>

text \<open>
  C3. For every video, \<open>afterDestroy\<close> runs the thumbnail removal. If and only if the
  video is owned, it also runs the removal of the video file, of the torrent file
  and of the preview, and submits the payload with \<open>name\<close> the video's name and
  \<open>remoteId\<close> the video's id to the friends module; for a mirrored video the thumbnail
  removal is the only task.
\<close>

theorem afterDestroy_tasks:
  "length (afterDestroyTasks cfg env v) = (if isOwned v then 5 else 1)
   \<and> hd (afterDestroyTasks cfg env v) = reading (removeThumbnail cfg env)
   \<and> snd (snd (afterDestroy cfg env completion v)) =
       Unlink (CONFIG_STORAGE_THUMBNAILS_DIR cfg @ getThumbnailName v) #
       (if isOwned v then
          [Unlink (CONFIG_STORAGE_VIDEOS_DIR cfg @ getVideoFilename v),
           Unlink (CONFIG_STORAGE_TORRENTS_DIR cfg @ getTorrentName v),
           Unlink (CONFIG_STORAGE_PREVIEWS_DIR cfg @ getPreviewName v),
           RemoveVideoToFriends \<lparr>remove_params.name = video.name v, remove_params.remoteId = video.id' v\<rparr>
             (removeVideoToFriends env
                \<lparr>remove_params.name = video.name v, remove_params.remoteId = video.id' v\<rparr>)]
        else [])"
  by (simp add: afterDestroy_effects) (simp add: afterDestroyTasks_def)

theorem afterDestroy_tasks_witness:
  "snd (snd (afterDestroy exampleConstants exampleEnv [] ownedExample)) =
     [Unlink ''/thumbnails/v1.jpg'', Unlink ''/videos/v1.mp4'', Unlink ''/torrents/v1.torrent'',
      Unlink ''/previews/v1.jpg'',
      RemoveVideoToFriends \<lparr>remove_params.name = ''Demo'', remove_params.remoteId = ''v1''\<rparr>
        (Returned (Some (Error ''peer unreachable'')))]
   \<and> snd (snd (afterDestroy exampleConstants exampleEnv [] mirroredExample)) =
     [Unlink ''/thumbnails/v2.jpg'']"
proof -
  have o: "isOwned ownedExample" and m: "\<not> isOwned mirroredExample"
    by (simp_all add: isOwned_def ownedExample_def mirroredExample_def)
  have n: "getThumbnailName ownedExample = ''v1.jpg''" "getVideoFilename ownedExample = ''v1.mp4''"
    "getTorrentName ownedExample = ''v1.torrent''" "getPreviewName ownedExample = ''v1.jpg''"
    "getThumbnailName mirroredExample = ''v2.jpg''"
    by code_simp+
  have e: "removeVideoToFriends exampleEnv p = Returned (Some (Error ''peer unreachable''))" for p
    by (simp add: exampleEnv_def)
  have f: "video.name ownedExample = ''Demo''" "video.id' ownedExample = ''v1''"
    by (simp_all add: ownedExample_def)
  have 1: "snd (snd (afterDestroy exampleConstants exampleEnv [] ownedExample)) =
     [Unlink ''/thumbnails/v1.jpg'', Unlink ''/videos/v1.mp4'', Unlink ''/torrents/v1.torrent'',
      Unlink ''/previews/v1.jpg'',
      RemoveVideoToFriends \<lparr>remove_params.name = ''Demo'', remove_params.remoteId = ''v1''\<rparr>
        (Returned (Some (Error ''peer unreachable'')))]"
    using afterDestroy_tasks [of exampleConstants exampleEnv ownedExample "[]"] o
    by (simp add: n e f exampleConstants_def)
  have 2: "snd (snd (afterDestroy exampleConstants exampleEnv [] mirroredExample)) =
     [Unlink ''/thumbnails/v2.jpg'']"
    using afterDestroy_tasks [of exampleConstants exampleEnv mirroredExample "[]"] m
    by (simp add: n exampleConstants_def)
  from 1 2 show ?thesis by simp
qed

subsection \<open>The broadcast of a removal\<close>

text \<open>
  C8 (as amended). In the destruction of an owned video, the last task calls the
  removal broadcast of the friends module with the payload of the video and, when
  that call returns, succeeds without using anything of it: the error that
  \<open>afterDestroy\<close> passes is the first error among its four \<open>unlink\<close> calls, whatever
  becomes of the broadcast, and none when the four removals succeed. The call is
  not inside a \<open>try\<close>: when the call itself throws, the exception leaves the hook, as
  the counterexample shows.
\<close>

theorem broadcast_failure_not_propagated:
  assumes "isOwned v"
    and "removeVideoToFriends env
           \<lparr>remove_params.name = video.name v, remove_params.remoteId = video.id' v\<rparr> = Returned r"
  shows
    "let unlinked = (\<lambda>path. case unlink env path of Some err \<Rightarrow> Inl err | None \<Rightarrow> Inr Undefined);
         thumbnailPath = CONFIG_STORAGE_THUMBNAILS_DIR cfg @ getThumbnailName v;
         filePath = CONFIG_STORAGE_VIDEOS_DIR cfg @ getVideoFilename v;
         torrentPath = CONFIG_STORAGE_TORRENTS_DIR cfg @ getTorrentName v;
         previewPath = CONFIG_STORAGE_PREVIEWS_DIR cfg @ getPreviewName v;
         results = [unlinked thumbnailPath, unlinked filePath, unlinked torrentPath,
                    unlinked previewPath, Inr Undefined]
     in last (afterDestroyTasks cfg env v) = removeVideoToFriendsTask env
      \<and> removeVideoToFriendsTask env v =
          (Returned (Inr Undefined), v,
           [RemoveVideoToFriends
              \<lparr>remove_params.name = video.name v, remove_params.remoteId = video.id' v\<rparr>
              (Returned r)])
      \<and> fst (runTasks (afterDestroyTasks cfg env v) v) = Returned results
      \<and> last (snd (snd (afterDestroy cfg env completion v))) =
          RemoveVideoToFriends
            \<lparr>remove_params.name = video.name v, remove_params.remoteId = video.id' v\<rparr> (Returned r)
      \<and> fst (afterDestroy cfg env completion v) = Returned (firstError completion results)
      \<and> (unlink env thumbnailPath = None \<and> unlink env filePath = None
          \<and> unlink env torrentPath = None \<and> unlink env previewPath = None
           \<longrightarrow> fst (afterDestroy cfg env completion v) = Returned None)
      \<and> (\<forall>e. fst (afterDestroy cfg env completion v) = Returned (Some e)
           \<longrightarrow> unlink env thumbnailPath = Some e \<or> unlink env filePath = Some e
               \<or> unlink env torrentPath = Some e \<or> unlink env previewPath = Some e)"
proof -
  let ?u = "\<lambda>path. case unlink env path of Some err \<Rightarrow> Inl err | None \<Rightarrow> Inr Undefined"
  let ?p1 = "CONFIG_STORAGE_THUMBNAILS_DIR cfg @ getThumbnailName v"
  let ?p2 = "CONFIG_STORAGE_VIDEOS_DIR cfg @ getVideoFilename v"
  let ?p3 = "CONFIG_STORAGE_TORRENTS_DIR cfg @ getTorrentName v"
  let ?p4 = "CONFIG_STORAGE_PREVIEWS_DIR cfg @ getPreviewName v"
  let ?rs = "[?u ?p1, ?u ?p2, ?u ?p3, ?u ?p4, Inr Undefined]"
  have task: "last (afterDestroyTasks cfg env v) = removeVideoToFriendsTask env"
    using assms(1) by (simp add: afterDestroyTasks_def)
  have own: "removeVideoToFriendsTask env v =
          (Returned (Inr Undefined), v,
           [RemoveVideoToFriends
              \<lparr>remove_params.name = video.name v, remove_params.remoteId = video.id' v\<rparr>
              (Returned r)])"
    using assms(2) by (simp add: removeVideoToFriendsTask_eq)
  have run: "fst (runTasks (afterDestroyTasks cfg env v) v) = Returned ?rs"
    using assms
    by (simp add: runTasks_afterDestroyTasks removeThumbnail_def removeFile_def removeTorrent_def
        removePreview_def unlinkFile_simps)
  have sent: "last (snd (snd (afterDestroy cfg env completion v))) =
          RemoveVideoToFriends
            \<lparr>remove_params.name = video.name v, remove_params.remoteId = video.id' v\<rparr> (Returned r)"
    using assms by (simp add: afterDestroy_effects)
  have hook: "fst (afterDestroy cfg env completion v) = Returned (firstError completion ?rs)"
    by (simp add: afterDestroy_result run)
  have none: "unlink env ?p1 = None \<and> unlink env ?p2 = None \<and> unlink env ?p3 = None
      \<and> unlink env ?p4 = None \<longrightarrow> fst (afterDestroy cfg env completion v) = Returned None"
    by (simp add: hook firstError_None)
  have some: "\<forall>e. fst (afterDestroy cfg env completion v) = Returned (Some e)
           \<longrightarrow> unlink env ?p1 = Some e \<or> unlink env ?p2 = Some e
               \<or> unlink env ?p3 = Some e \<or> unlink env ?p4 = Some e"
  proof (intro allI impI)
    fix e assume "fst (afterDestroy cfg env completion v) = Returned (Some e)"
    then have "firstError completion ?rs = Some e" by (simp add: hook)
    from firstError_Some [OF this]
    show "unlink env ?p1 = Some e \<or> unlink env ?p2 = Some e
               \<or> unlink env ?p3 = Some e \<or> unlink env ?p4 = Some e"
      by (auto split: option.splits)
  qed
  show ?thesis
    unfolding Let_def
    using task own run sent hook none some by (intro conjI)
qed

theorem broadcast_failure_not_propagated_witness:
  "isOwned ownedExample
   \<and> removeVideoToFriends exampleEnv \<lparr>remove_params.name = ''Demo'', remove_params.remoteId = ''v1''\<rparr>
       = Returned (Some (Error ''peer unreachable''))
   \<and> fst (afterDestroy exampleConstants exampleEnv [] ownedExample) = Returned None"
proof -
  have o: "isOwned ownedExample"
    by (simp add: isOwned_def ownedExample_def)
  have f: "video.name ownedExample = ''Demo''" "video.id' ownedExample = ''v1''"
    by (simp_all add: ownedExample_def)
  have b: "removeVideoToFriends exampleEnv
      \<lparr>remove_params.name = video.name ownedExample, remove_params.remoteId = video.id' ownedExample\<rparr>
       = Returned (Some (Error ''peer unreachable''))"
    by (simp add: exampleEnv_def)
  have u: "unlink exampleEnv path = None" for path
    by (simp add: exampleEnv_def)
  have 1: "fst (afterDestroy exampleConstants exampleEnv [] ownedExample) = Returned None"
    by (rule broadcast_failure_not_propagated [OF o b, of exampleConstants "[]", unfolded Let_def,
          THEN conjunct2, THEN conjunct2, THEN conjunct2, THEN conjunct2, THEN conjunct2,
          THEN conjunct1, rule_format])
      (simp add: u)
  from o b 1 show ?thesis by (simp add: f)
qed

theorem broadcast_throw_counterexample:
  "isOwned ownedExample
   \<and> unlink friendsThrowEnv ''/thumbnails/v1.jpg'' = None
   \<and> unlink friendsThrowEnv ''/videos/v1.mp4'' = None
   \<and> unlink friendsThrowEnv ''/torrents/v1.torrent'' = None
   \<and> unlink friendsThrowEnv ''/previews/v1.jpg'' = None
   \<and> removeVideoToFriends friendsThrowEnv
        \<lparr>remove_params.name = ''Demo'', remove_params.remoteId = ''v1''\<rparr>
       = Threw (TypeError ''Cannot read property of undefined'')
   \<and> fst (afterDestroy exampleConstants friendsThrowEnv [] ownedExample)
       = Threw (TypeError ''Cannot read property of undefined'')"
  by code_simp

subsection \<open>The representations sent to other pods\<close>

text \<open>
  C7. For every video, the update representation holds the metadata (name,
  description, infoHash, author, duration, tags, timestamps, extname) and no
  thumbnail bytes; the add representation, produced when the thumbnail file can be
  read, holds the same metadata and the thumbnail bytes as a binary string, from
  which the bytes are recovered; both have the video's own \<open>id\<close> as their \<open>remoteId\<close>.
  When the thumbnail cannot be read, \<open>toAddRemoteJSON\<close> passes the error.
\<close>

theorem remote_representations:
  "toUpdateRemoteJSON v =
     \<lparr>remote_video.name = video.name v,
      remote_video.description = video.description v,
      remote_video.infoHash = video.infoHash v,
      remote_video.remoteId = video.id' v,
      remote_video.author = author.name (Author v),
      remote_video.duration = video.duration v,
      remote_video.tags = map tag.name (Tags v),
      remote_video.createdAt = video.createdAt v,
      remote_video.updatedAt = video.updatedAt v,
      remote_video.extname = video.extname v\<rparr>
   \<and> (\<forall>buffer.
         readFile env (pathJoin env (CONFIG_STORAGE_THUMBNAILS_DIR cfg) (getThumbnailName v)) = Inr buffer
         \<longrightarrow> (\<exists>r. fst (toAddRemoteJSON cfg env v) = Inr r
                  \<and> remote_video.truncate r = toUpdateRemoteJSON v
                  \<and> remote_video.remoteId r = video.id' v
                  \<and> thumbnailData r = toBinaryString buffer
                  \<and> bufferFromBinary (thumbnailData r) = buffer))
   \<and> (\<forall>err.
         readFile env (pathJoin env (CONFIG_STORAGE_THUMBNAILS_DIR cfg) (getThumbnailName v)) = Inl err
         \<longrightarrow> fst (toAddRemoteJSON cfg env v) = Inl err)"
  by (simp add: toUpdateRemoteJSON_def toAddRemoteJSON_def Let_def remote_video.truncate_def
      binary_roundtrip)

theorem remote_representations_witness:
  "remote_video.remoteId (toUpdateRemoteJSON ownedExample) = ''v1''
   \<and> remote_video.tags (toUpdateRemoteJSON ownedExample) = [''cats'', ''dogs'']
   \<and> (\<exists>r. fst (toAddRemoteJSON exampleConstants exampleEnv ownedExample) = Inr r
          \<and> remote_video.truncate r = toUpdateRemoteJSON ownedExample
          \<and> remote_video.remoteId r = ''v1''
          \<and> bufferFromBinary (thumbnailData r) = [255, 216, 0])"
proof -
  have r: "readFile exampleEnv (pathJoin exampleEnv (CONFIG_STORAGE_THUMBNAILS_DIR exampleConstants)
             (getThumbnailName ownedExample)) = Inr [255, 216, 0]"
    by (simp add: exampleEnv_def)
  have i: "video.id' ownedExample = ''v1''" "map tag.name (Tags ownedExample) = [''cats'', ''dogs'']"
    by (simp_all add: ownedExample_def)
  note t = remote_representations [of ownedExample exampleEnv exampleConstants]
  from t [THEN conjunct1] i
  have 1: "remote_video.remoteId (toUpdateRemoteJSON ownedExample) = ''v1''
     \<and> remote_video.tags (toUpdateRemoteJSON ownedExample) = [''cats'', ''dogs'']"
    by simp
  from t [THEN conjunct2, THEN conjunct1, rule_format, OF r] i
  have 2: "\<exists>r. fst (toAddRemoteJSON exampleConstants exampleEnv ownedExample) = Inr r
          \<and> remote_video.truncate r = toUpdateRemoteJSON ownedExample
          \<and> remote_video.remoteId r = ''v1''
          \<and> bufferFromBinary (thumbnailData r) = [255, 216, 0]"
    by auto
  from 1 2 show ?thesis by simp
qed

subsection \<open>The magnet URI\<close>

text \<open>
  C9. \<open>generateMagnetUri\<close> is a function of the video and the configuration, without
  effects. For an owned video the base HTTP origin is the URL of this pod's web
  server, for a mirrored video it is made of the host of the author's pod; \<open>xs\<close> is
  the base HTTP origin, the static torrent path and the torrent file name,
  \<open>urlList\<close> the one-element list of the base HTTP origin, the static web-seed path
  and the video file name, \<open>announce\<close> the base tracker origin and
  \<open>/tracker/socket\<close>; the result is the magnet encoding of these with the info-hash
  and the name.
\<close>

theorem generateMagnetUri_builds:
  "(isOwned v \<longrightarrow>
      generateMagnetUri cfg env v =
        Inr (magnetEncode env
          \<lparr>xs = CONFIG_WEBSERVER_URL cfg @ STATIC_PATHS_TORRENTS cfg @ getTorrentName v,
           magnet_hash.announce =
             (CONFIG_WEBSERVER_WS cfg @ ''://'' @ CONFIG_WEBSERVER_HOSTNAME cfg @ '':''
                @ CONFIG_WEBSERVER_PORT cfg) @ ''/tracker/socket'',
           magnet_hash.urlList =
             [CONFIG_WEBSERVER_URL cfg @ STATIC_PATHS_WEBSEED cfg @ getVideoFilename v],
           magnet_hash.infoHash = video.infoHash v,
           magnet_hash.name = video.name v\<rparr>))
   \<and> (\<forall>p. \<not> isOwned v \<and> Pod (Author v) = Some p \<longrightarrow>
      generateMagnetUri cfg env v =
        Inr (magnetEncode env
          \<lparr>xs = (REMOTE_SCHEME_HTTP cfg @ ''://'' @ host p) @ STATIC_PATHS_TORRENTS cfg
                  @ getTorrentName v,
           magnet_hash.announce = (REMOTE_SCHEME_WS cfg @ ''://'' @ host p) @ ''/tracker/socket'',
           magnet_hash.urlList =
             [(REMOTE_SCHEME_HTTP cfg @ ''://'' @ host p) @ STATIC_PATHS_WEBSEED cfg
                @ getVideoFilename v],
           magnet_hash.infoHash = video.infoHash v,
           magnet_hash.name = video.name v\<rparr>))"
  by (simp add: generateMagnetUri_def Let_def)

theorem generateMagnetUri_builds_witness:
  "isOwned ownedExample
   \<and> generateMagnetUri exampleConstants exampleEnv (ownedExample\<lparr>video.infoHash := ''a9993e364706816aba3e25717850c26c9cd0d89d''\<rparr>)
       = Inr ''magnet:?xt=urn:btih:a9993e364706816aba3e25717850c26c9cd0d89d&xs=http://localhost:9000/static/torrents/v1.torrent''
   \<and> generateMagnetUri exampleConstants exampleEnv mirroredExample
       = Inr ''magnet:?xt=urn:btih:da39a3ee5e6b4b0d3255bfef95601890afd80709&xs=https://peer.example.org/static/torrents/abc.torrent''"
proof -
  let ?o = "ownedExample\<lparr>video.infoHash := ''a9993e364706816aba3e25717850c26c9cd0d89d''\<rparr>"
  have o: "isOwned ownedExample" "isOwned ?o"
    and m: "\<not> isOwned mirroredExample \<and> Pod (Author mirroredExample) = Some \<lparr>host = ''peer.example.org''\<rparr>"
    by (simp_all add: isOwned_def ownedExample_def mirroredExample_def)
  have n: "getTorrentName ?o = ''v1.torrent''" "getTorrentName mirroredExample = ''abc.torrent''"
    by code_simp+
  note t1 = generateMagnetUri_builds [of ?o exampleConstants exampleEnv, THEN conjunct1, rule_format, OF o(2)]
  note t2 = generateMagnetUri_builds [of mirroredExample exampleConstants exampleEnv,
      THEN conjunct2, rule_format, OF m]
  have 1: "generateMagnetUri exampleConstants exampleEnv ?o
       = Inr ''magnet:?xt=urn:btih:a9993e364706816aba3e25717850c26c9cd0d89d&xs=http://localhost:9000/static/torrents/v1.torrent''"
    unfolding t1 n by (simp add: exampleEnv_def exampleConstants_def)
  have 2: "generateMagnetUri exampleConstants exampleEnv mirroredExample
       = Inr ''magnet:?xt=urn:btih:da39a3ee5e6b4b0d3255bfef95601890afd80709&xs=https://peer.example.org/static/torrents/abc.torrent''"
    unfolding t2 n by (simp add: exampleEnv_def exampleConstants_def mirroredExample_def)
  from o(1) 1 2 show ?thesis by simp
qed

subsection \<open>The public JSON\<close>

text \<open>
  C10. \<open>toFormatedJSON\<close> sets \<open>isLocal\<close> to the value of \<open>isOwned\<close>, and \<open>podHost\<close> to the
  host of the author's pod when the author has one and to the host of this pod's
  web server when the author has none. A JSON is produced for every video whose
  author has a pod and for every owned video.
\<close>

theorem toFormatedJSON_podHost:
  "(\<forall>p. Pod (Author v) = Some p \<longrightarrow>
       (\<exists>j. toFormatedJSON cfg env v = Inr j \<and> isLocal j = isOwned v \<and> podHost j = host p))
   \<and> (Pod (Author v) = None \<and> isOwned v \<longrightarrow>
       (\<exists>j. toFormatedJSON cfg env v = Inr j \<and> isLocal j = isOwned v
            \<and> podHost j = CONFIG_WEBSERVER_HOST cfg))
   \<and> (\<forall>j. toFormatedJSON cfg env v = Inr j \<longrightarrow>
       isLocal j = isOwned v
       \<and> podHost j = (case Pod (Author v) of Some p \<Rightarrow> host p | None \<Rightarrow> CONFIG_WEBSERVER_HOST cfg))"
  by (auto simp: toFormatedJSON_def generateMagnetUri_def Let_def split: sum.splits option.splits if_splits)

theorem toFormatedJSON_podHost_witness:
  "(\<exists>j. toFormatedJSON exampleConstants exampleEnv ownedExample = Inr j \<and> isLocal j
        \<and> podHost j = ''localhost:9000'')
   \<and> (\<exists>j. toFormatedJSON exampleConstants exampleEnv mirroredExample = Inr j \<and> \<not> isLocal j
        \<and> podHost j = ''peer.example.org'')"
proof -
  have o: "Pod (Author ownedExample) = None \<and> isOwned ownedExample"
    and m: "Pod (Author mirroredExample) = Some \<lparr>host = ''peer.example.org''\<rparr>"
    and n: "\<not> isOwned mirroredExample"
    by (simp_all add: isOwned_def ownedExample_def mirroredExample_def)
  from toFormatedJSON_podHost [of ownedExample exampleConstants exampleEnv,
      THEN conjunct2, THEN conjunct1, rule_format, OF o] o
  have 1: "\<exists>j. toFormatedJSON exampleConstants exampleEnv ownedExample = Inr j \<and> isLocal j
        \<and> podHost j = ''localhost:9000''"
    by (simp add: exampleConstants_def)
  from toFormatedJSON_podHost [of mirroredExample exampleConstants exampleEnv,
      THEN conjunct1, rule_format, OF m] n
  have 2: "\<exists>j. toFormatedJSON exampleConstants exampleEnv mirroredExample = Inr j \<and> \<not> isLocal j
        \<and> podHost j = ''peer.example.org''"
    by simp
  from 1 2 show ?thesis by simp
qed

subsection \<open>The search dispatcher\<close>

text \<open>
  C4. \<open>searchAndPopulateAuthorAndPodAndTags\<close> resolves the field by one chain of
  alternatives, so exactly one branch applies. Field \<open>magnetUri\<close> asks for equality of
  \<open>infoHash\<close> with the info-hash decoded from the value, whatever else the URI holds;
  field \<open>tags\<close> asks for the id to be among those selected by a subquery on the tag
  names matching the value; field \<open>host\<close> puts a \<open>$like\<close> condition on the host in the pod
  include and makes that include required, so that no video whose author has no pod
  is returned; field \<open>author\<close> puts a \<open>$like\<close> condition on the name in the author
  include; any other field name gets a \<open>$like\<close> condition on the column of that name,
  but for the field name \<open>__proto__\<close>: there the assignment of line 568 adds no key,
  the where object stays empty and the search returns the videos unfiltered.
  The pattern of every \<open>$like\<close> is the value between two \<open>%\<close>. The function passes an
  error only when the storage layer rejects the query.
\<close>

theorem search_dispatch:
  \<open>(offset (searchQuery env value field start cnt sort') = start
     \<and> limit (searchQuery env value field start cnt sort') = cnt
     \<and> distinct' (searchQuery env value field start cnt sort') = True
     \<and> order (searchQuery env value field start cnt sort')
         = [OrderBy (getSort env sort'), OrderByModel TagModel ''name'' ''ASC''])
   \<and> (query.where' (searchQuery env value ''magnetUri'' start cnt sort')
         = [(''infoHash'', Equals (magnet_decoded.infoHash (magnetDecode env value)))]
       \<and> query.include' (searchQuery env value ''magnetUri'' start cnt sort')
         = [Include AuthorModel None None [Include PodModel None (Some False) []],
            Include TagModel None None []])
   \<and> (magnet_decoded.infoHash (magnetDecode env value2) = magnet_decoded.infoHash (magnetDecode env value)
       \<longrightarrow> searchQuery env value2 ''magnetUri'' start cnt sort'
           = searchQuery env value ''magnetUri'' start cnt sort')
   \<and> (\<forall>found n v.
         searchAndPopulateAuthorAndPodAndTags env value ''magnetUri'' start cnt sort' = Inr (found, n)
         \<and> v \<in> set found
         \<longrightarrow> Some (video.infoHash v) = magnet_decoded.infoHash (magnetDecode env value))
   \<and> (query.where' (searchQuery env value ''tags'' start cnt sort')
         = [(''id'', InLiteral (''(SELECT "VideoTags"."videoId" FROM "Tags" INNER JOIN "VideoTags" ON "Tags"."id" = "VideoTags"."tagId" WHERE name LIKE '' @ escape env (''%'' @ value @ ''%'') @ '')''))]
       \<and> query.include' (searchQuery env value ''tags'' start cnt sort')
         = [Include AuthorModel None None [Include PodModel None (Some False) []],
            Include TagModel None None []])
   \<and> (query.where' (searchQuery env value ''host'' start cnt sort') = []
       \<and> query.include' (searchQuery env value ''host'' start cnt sort')
         = [Include AuthorModel None None
              [Include PodModel (Some [(''host'', Like (''%'' @ value @ ''%''))]) (Some True) []],
            Include TagModel None None []])
   \<and> (\<forall>found n v.
         searchAndPopulateAuthorAndPodAndTags env value ''host'' start cnt sort' = Inr (found, n)
         \<and> v \<in> set found
         \<longrightarrow> (\<exists>p. Pod (Author v) = Some p \<and> sqlLike env (''%'' @ value @ ''%'') (host p)))
   \<and> (query.where' (searchQuery env value ''author'' start cnt sort') = []
       \<and> query.include' (searchQuery env value ''author'' start cnt sort')
         = [Include AuthorModel (Some [(''name'', Like (''%'' @ value @ ''%''))]) None
              [Include PodModel None (Some False) []],
            Include TagModel None None []])
   \<and> (field \<noteq> ''magnetUri'' \<and> field \<noteq> ''tags'' \<and> field \<noteq> ''host'' \<and> field \<noteq> ''author''
        \<and> field \<noteq> ''__proto__''
       \<longrightarrow> query.where' (searchQuery env value field start cnt sort')
             = [(field, Like (''%'' @ value @ ''%''))]
           \<and> query.include' (searchQuery env value field start cnt sort')
             = [Include AuthorModel None None [Include PodModel None (Some False) []],
                Include TagModel None None []])
   \<and> (query.where' (searchQuery env value ''__proto__'' start cnt sort') = []
       \<and> query.include' (searchQuery env value ''__proto__'' start cnt sort')
         = [Include AuthorModel None None [Include PodModel None (Some False) []],
            Include TagModel None None []])
   \<and> (queryError env (searchQuery env value ''__proto__'' start cnt sort') = None
       \<longrightarrow> searchAndPopulateAuthorAndPodAndTags env value ''__proto__'' start cnt sort'
           = Inr (take cnt (drop start
                    (table env [OrderBy (getSort env sort'), OrderByModel TagModel ''name'' ''ASC''])),
                  length (table env [OrderBy (getSort env sort'), OrderByModel TagModel ''name'' ''ASC''])))
   \<and> (\<forall>err. searchAndPopulateAuthorAndPodAndTags env value field start cnt sort' = Inl err
         \<longleftrightarrow> queryError env (searchQuery env value field start cnt sort') = Some err)\<close>
proof -
  have common: \<open>offset (searchQuery env value field start cnt sort') = start
     \<and> limit (searchQuery env value field start cnt sort') = cnt
     \<and> distinct' (searchQuery env value field start cnt sort') = True
     \<and> order (searchQuery env value field start cnt sort')
         = [OrderBy (getSort env sort'), OrderByModel TagModel ''name'' ''ASC'']\<close>
    by (simp add: searchQuery_def Let_def)
  have magnet: \<open>query.where' (searchQuery env val ''magnetUri'' start cnt sort')
         = [(''infoHash'', Equals (magnet_decoded.infoHash (magnetDecode env val)))]
       \<and> query.include' (searchQuery env val ''magnetUri'' start cnt sort')
         = [Include AuthorModel None None [Include PodModel None (Some False) []],
            Include TagModel None None []]\<close> for val
    by (simp add: searchQuery_def Let_def)
  have magnet_eq: \<open>magnet_decoded.infoHash (magnetDecode env value2) = magnet_decoded.infoHash (magnetDecode env value)
       \<longrightarrow> searchQuery env value2 ''magnetUri'' start cnt sort'
           = searchQuery env value ''magnetUri'' start cnt sort'\<close>
    by (simp add: searchQuery_def Let_def)
  have magnet_rows: \<open>\<forall>found n v.
         searchAndPopulateAuthorAndPodAndTags env value ''magnetUri'' start cnt sort' = Inr (found, n)
         \<and> v \<in> set found
         \<longrightarrow> Some (video.infoHash v) = magnet_decoded.infoHash (magnetDecode env value)\<close>
  proof (intro allI impI, elim conjE)
    fix found n v
    assume \<open>searchAndPopulateAuthorAndPodAndTags env value ''magnetUri'' start cnt sort' = Inr (found, n)\<close>
      and \<open>v \<in> set found\<close>
    from search_rows_kept [OF this]
    show \<open>Some (video.infoHash v) = magnet_decoded.infoHash (magnetDecode env value)\<close>
      by (simp add: magnet whereHolds_def conditionHolds_def videoColumns_def)
  qed
  have tags: \<open>query.where' (searchQuery env value ''tags'' start cnt sort')
         = [(''id'', InLiteral (''(SELECT "VideoTags"."videoId" FROM "Tags" INNER JOIN "VideoTags" ON "Tags"."id" = "VideoTags"."tagId" WHERE name LIKE '' @ escape env (''%'' @ value @ ''%'') @ '')''))]
       \<and> query.include' (searchQuery env value ''tags'' start cnt sort')
         = [Include AuthorModel None None [Include PodModel None (Some False) []],
            Include TagModel None None []]\<close>
    by (simp add: searchQuery_def Let_def)
  have host: \<open>query.where' (searchQuery env value ''host'' start cnt sort') = []
       \<and> query.include' (searchQuery env value ''host'' start cnt sort')
         = [Include AuthorModel None None
              [Include PodModel (Some [(''host'', Like (''%'' @ value @ ''%''))]) (Some True) []],
            Include TagModel None None []]\<close>
    by (simp add: searchQuery_def Let_def)
  have host_rows: \<open>\<forall>found n v.
         searchAndPopulateAuthorAndPodAndTags env value ''host'' start cnt sort' = Inr (found, n)
         \<and> v \<in> set found
         \<longrightarrow> (\<exists>p. Pod (Author v) = Some p \<and> sqlLike env (''%'' @ value @ ''%'') (host p))\<close>
  proof (intro allI impI, elim conjE)
    fix found n v
    assume \<open>searchAndPopulateAuthorAndPodAndTags env value ''host'' start cnt sort' = Inr (found, n)\<close>
      and \<open>v \<in> set found\<close>
    from search_rows_kept [OF this]
    show \<open>\<exists>p. Pod (Author v) = Some p \<and> sqlLike env (''%'' @ value @ ''%'') (host p)\<close>
      by (cases \<open>Pod (Author v)\<close>)
        (simp_all add: host includeKeeps_def podIncludeKeeps_def isRequired_def whereOf_def
          whereHolds_def conditionHolds_def)
  qed
  have author: \<open>query.where' (searchQuery env value ''author'' start cnt sort') = []
       \<and> query.include' (searchQuery env value ''author'' start cnt sort')
         = [Include AuthorModel (Some [(''name'', Like (''%'' @ value @ ''%''))]) None
              [Include PodModel None (Some False) []],
            Include TagModel None None []]\<close>
    by (simp add: searchQuery_def Let_def)
  have other: \<open>field \<noteq> ''magnetUri'' \<and> field \<noteq> ''tags'' \<and> field \<noteq> ''host'' \<and> field \<noteq> ''author''
        \<and> field \<noteq> ''__proto__''
       \<longrightarrow> query.where' (searchQuery env value field start cnt sort')
             = [(field, Like (''%'' @ value @ ''%''))]
           \<and> query.include' (searchQuery env value field start cnt sort')
             = [Include AuthorModel None None [Include PodModel None (Some False) []],
                Include TagModel None None []]\<close>
    by (simp add: searchQuery_def Let_def)
  have proto: \<open>query.where' (searchQuery env value ''__proto__'' start cnt sort') = []
       \<and> query.include' (searchQuery env value ''__proto__'' start cnt sort')
         = [Include AuthorModel None None [Include PodModel None (Some False) []],
            Include TagModel None None []]\<close>
    by (simp add: searchQuery_def Let_def)
  have proto_rows: \<open>queryError env (searchQuery env value ''__proto__'' start cnt sort') = None
       \<longrightarrow> searchAndPopulateAuthorAndPodAndTags env value ''__proto__'' start cnt sort'
           = Inr (take cnt (drop start
                    (table env [OrderBy (getSort env sort'), OrderByModel TagModel ''name'' ''ASC''])),
                  length (table env [OrderBy (getSort env sort'), OrderByModel TagModel ''name'' ''ASC'']))\<close>
    by (simp add: searchAndPopulateAuthorAndPodAndTags_def findAndCountAll_def Let_def proto
        whereHolds_def includeKeeps_def podIncludeKeeps_def isRequired_def)
      (simp add: searchQuery_def Let_def)
  have errors: \<open>\<forall>err. searchAndPopulateAuthorAndPodAndTags env value field start cnt sort' = Inl err
         \<longleftrightarrow> queryError env (searchQuery env value field start cnt sort') = Some err\<close>
    by (simp add: search_error)
  show ?thesis
    by (intro common magnet magnet_eq magnet_rows tags host host_rows author other proto proto_rows
        errors conjI)
qed

theorem search_dispatch_witness:
  \<open>searchAndPopulateAuthorAndPodAndTags exampleEnv ''peer.example.org'' ''host'' 0 10 ''name''
     = Inr ([mirroredExample], 1)
   \<and> (\<exists>p. Pod (Author mirroredExample) = Some p \<and> host p = ''peer.example.org'')
   \<and> query.where' (searchQuery exampleEnv ''Demo'' ''description'' 0 10 ''name'')
       = [(''description'', Like ''%Demo%'')]
   \<and> searchQuery exampleEnv ''magnet:?xt=urn:btih:da39a3ee5e6b4b0d3255bfef95601890afd80709&dn=a'' ''magnetUri'' 0 10 ''name''
       = searchQuery exampleEnv ''magnet:?xt=urn:btih:da39a3ee5e6b4b0d3255bfef95601890afd80709&dn=b'' ''magnetUri'' 0 10 ''name''
   \<and> query.where' (searchQuery exampleEnv ''no such text'' ''__proto__'' 0 10 ''name'') = []
   \<and> searchAndPopulateAuthorAndPodAndTags exampleEnv ''no such text'' ''__proto__'' 0 10 ''name''
       = Inr ([ownedExample, mirroredExample], 2)\<close>
proof -
  have r: \<open>searchAndPopulateAuthorAndPodAndTags exampleEnv ''peer.example.org'' ''host'' 0 10 ''name''
     = Inr ([mirroredExample], 1)\<close>
    by code_simp
  have d: \<open>magnet_decoded.infoHash (magnetDecode exampleEnv
              ''magnet:?xt=urn:btih:da39a3ee5e6b4b0d3255bfef95601890afd80709&dn=a'')
         = magnet_decoded.infoHash (magnetDecode exampleEnv
              ''magnet:?xt=urn:btih:da39a3ee5e6b4b0d3255bfef95601890afd80709&dn=b'')\<close>
    by (simp add: exampleEnv_def)
  note h = search_dispatch [of exampleEnv "''peer.example.org''" "''description''" 0 10 "''name''"]
  note o = search_dispatch [of exampleEnv "''Demo''" "''description''" 0 10 "''name''"]
  note m = search_dispatch [of exampleEnv
      "''magnet:?xt=urn:btih:da39a3ee5e6b4b0d3255bfef95601890afd80709&dn=b''" "''description''" 0 10 "''name''"
      "''magnet:?xt=urn:btih:da39a3ee5e6b4b0d3255bfef95601890afd80709&dn=a''"]
  from h [THEN conjunct2, THEN conjunct2, THEN conjunct2, THEN conjunct2, THEN conjunct2, THEN conjunct2, THEN conjunct1]
  have \<open>\<forall>found n v.
         searchAndPopulateAuthorAndPodAndTags exampleEnv ''peer.example.org'' ''host'' 0 10 ''name'' = Inr (found, n)
         \<and> v \<in> set found
         \<longrightarrow> (\<exists>p. Pod (Author v) = Some p
                \<and> sqlLike exampleEnv (''%'' @ ''peer.example.org'' @ ''%'') (host p))\<close>
    .
  with r have \<open>\<exists>p. Pod (Author mirroredExample) = Some p
                \<and> sqlLike exampleEnv (''%'' @ ''peer.example.org'' @ ''%'') (host p)\<close>
    by simp
  then have 1: \<open>\<exists>p. Pod (Author mirroredExample) = Some p \<and> host p = ''peer.example.org''\<close>
    by (auto simp: exampleEnv_def)
  from o [THEN conjunct2, THEN conjunct2, THEN conjunct2, THEN conjunct2, THEN conjunct2, THEN conjunct2, THEN conjunct2, THEN conjunct2, THEN conjunct1]
  have \<open>''description'' \<noteq> ''magnetUri'' \<and> ''description'' \<noteq> ''tags''
       \<and> ''description'' \<noteq> ''host'' \<and> ''description'' \<noteq> ''author''
       \<and> ''description'' \<noteq> ''__proto__''
       \<longrightarrow> query.where' (searchQuery exampleEnv ''Demo'' ''description'' 0 10 ''name'')
             = [(''description'', Like (''%'' @ ''Demo'' @ ''%''))]
           \<and> query.include' (searchQuery exampleEnv ''Demo'' ''description'' 0 10 ''name'')
             = [Include AuthorModel None None [Include PodModel None (Some False) []],
                Include TagModel None None []]\<close>
    .
  then have 2: \<open>query.where' (searchQuery exampleEnv ''Demo'' ''description'' 0 10 ''name'')
       = [(''description'', Like ''%Demo%'')]\<close>
    by simp
  from m [THEN conjunct2, THEN conjunct2, THEN conjunct1]
  have \<open>magnet_decoded.infoHash (magnetDecode exampleEnv
              ''magnet:?xt=urn:btih:da39a3ee5e6b4b0d3255bfef95601890afd80709&dn=a'')
         = magnet_decoded.infoHash (magnetDecode exampleEnv
              ''magnet:?xt=urn:btih:da39a3ee5e6b4b0d3255bfef95601890afd80709&dn=b'')
       \<longrightarrow> searchQuery exampleEnv ''magnet:?xt=urn:btih:da39a3ee5e6b4b0d3255bfef95601890afd80709&dn=a'' ''magnetUri'' 0 10 ''name''
           = searchQuery exampleEnv ''magnet:?xt=urn:btih:da39a3ee5e6b4b0d3255bfef95601890afd80709&dn=b'' ''magnetUri'' 0 10 ''name''\<close>
    .
  with d have 3: \<open>searchQuery exampleEnv ''magnet:?xt=urn:btih:da39a3ee5e6b4b0d3255bfef95601890afd80709&dn=a'' ''magnetUri'' 0 10 ''name''
       = searchQuery exampleEnv ''magnet:?xt=urn:btih:da39a3ee5e6b4b0d3255bfef95601890afd80709&dn=b'' ''magnetUri'' 0 10 ''name''\<close>
    by (rule mp [rotated])
  note p = search_dispatch [of exampleEnv "''no such text''" "''description''" 0 10 "''name''"]
  have 4: \<open>query.where' (searchQuery exampleEnv ''no such text'' ''__proto__'' 0 10 ''name'') = []\<close>
    by (rule p [THEN conjunct2, THEN conjunct2, THEN conjunct2, THEN conjunct2, THEN conjunct2,
          THEN conjunct2, THEN conjunct2, THEN conjunct2, THEN conjunct2, THEN conjunct1,
          THEN conjunct1])
  have 5: \<open>searchAndPopulateAuthorAndPodAndTags exampleEnv ''no such text'' ''__proto__'' 0 10 ''name''
       = Inr ([ownedExample, mirroredExample], 2)\<close>
    using p [THEN conjunct2, THEN conjunct2, THEN conjunct2, THEN conjunct2, THEN conjunct2,
          THEN conjunct2, THEN conjunct2, THEN conjunct2, THEN conjunct2, THEN conjunct2,
          THEN conjunct1]
    by (simp add: exampleEnv_def)
  from r 1 2 3 4 5 show ?thesis by (intro conjI)
qed

end
